theory Spec2Isabelle
  imports Complex_Main
begin

section \<open>Values and errors\<close>

text \<open>
  The exceptions of the Python sources that the model distinguishes. Every raise of
  the modelled code is a value \<open>Inl e\<close> of a result type \<open>error + 'a\<close>.
\<close>

datatype error =
    ValueError
  | TypeError
  | IndexError
  | KeyError
  | RuntimeError
  | FileNotFoundError
  | PathNotFoundError
  | GroupNotFoundError
  | ArrayNotFoundError
  | NameError
  | OtherError

text \<open>
  A floating-point value: a finite number, an infinity or not-a-number. Finite values
  are kept exact (rounding is outside the model); what the model keeps of IEEE
  arithmetic is that not-a-number is unequal to itself and that a division by zero
  does not raise.
\<close>

datatype pyfloat = Num rat | PosInf | NegInf | NaN

definition float_eq :: "pyfloat \<Rightarrow> pyfloat \<Rightarrow> bool" where
  "float_eq a b = (a \<noteq> NaN \<and> b \<noteq> NaN \<and> a = b)"

text \<open>
  A value of a catalog variable or of an attribute: a scalar (a number, a string or a
  tuple kept as one object) or, for a coordinate variable, the vector of its
  components.
\<close>

datatype val = VInt int | VFloat pyfloat | VStr string | VTuple "pyfloat list" | VVec "pyfloat list"

section \<open>Positional slices\<close>

text \<open>
  Python's \<open>xs[a:b]\<close>: a negative bound counts from the end, and both bounds are
  clamped to the length. The arrays of the chip and annotation stores have dimensions
  without coordinate labels (\<open>zarr_reshape\<close> builds them with \<open>xr.concat\<close> over a new
  dimension and plain \<open>dims\<close>), so \<open>.sel(dim=slice(a, b))\<close> selects by position.
\<close>

definition slice_bound :: "int \<Rightarrow> nat \<Rightarrow> nat" where
  "slice_bound i n = (if i < 0 then nat (max (i + int n) 0) else min (nat i) n)"

definition slice_len :: "int \<Rightarrow> int \<Rightarrow> nat \<Rightarrow> nat" where
  "slice_len a b n = slice_bound b n - slice_bound a n"

definition py_slice :: "int \<Rightarrow> int \<Rightarrow> 'a list \<Rightarrow> 'a list" where
  "py_slice a b xs =
     take (slice_len a b (length xs)) (drop (slice_bound a (length xs)) xs)"

section \<open>Labelled arrays\<close>

text \<open>
  An \<open>xarray.DataArray\<close> with dimensions \<open>(lead, x, y, ...)\<close>: \<open>lead\<close> is \<open>year\<close> for a
  chip and the stratum dimension for an annotation. \<open>planes\<close> holds one \<open>x\<close>-by-\<open>y\<close>
  plane per leading index; a cell of a plane is what lies beyond \<open>y\<close> (the band vector
  of a chip, a single value of an annotation), and \<open>trail\<close> gives the sizes of those
  trailing dimensions. The spatial sizes are kept beside the data, because an array
  may have no plane or no row and still have a shape.
\<close>

record 'a data_array =
  da_name :: val
  attrs :: "(string \<times> val) list"
  chunks :: "(string \<times> nat) list"
  x_size :: nat
  y_size :: nat
  trail :: "nat list"
  planes :: "'a list list list"

definition sel_xy :: "int \<Rightarrow> int \<Rightarrow> int \<Rightarrow> int \<Rightarrow> 'a data_array \<Rightarrow> 'a data_array" where
  "sel_xy xa xb ya yb a =
     a\<lparr>x_size := slice_len xa xb (x_size a),
       y_size := slice_len ya yb (y_size a),
       planes := map (\<lambda>p. map (py_slice ya yb) (py_slice xa xb p)) (planes a)\<rparr>"

definition sel_lead :: "int \<Rightarrow> int \<Rightarrow> 'a data_array \<Rightarrow> 'a data_array" where
  "sel_lead a b arr = arr\<lparr>planes := py_slice a b (planes arr)\<rparr>"

subsection \<open>\<open>pad_xy_xarray\<close> (pipeline/utils.py)\<close>

definition pad_list :: "nat \<Rightarrow> nat \<Rightarrow> 'a \<Rightarrow> 'a list \<Rightarrow> 'a list" where
  "pad_list lo hi v xs = replicate lo v @ xs @ replicate hi v"

text \<open>
  \<open>xarr.pad(x=(x_start, x_end), y=(y_start, y_end), mode="constant")\<close>; a negative pad
  width is refused with a \<open>ValueError\<close>. \<open>fill\<close> is the cell filled with the no-data
  value of the settings module.
\<close>

definition pad :: "int \<Rightarrow> int \<Rightarrow> int \<Rightarrow> int \<Rightarrow> 'a \<Rightarrow> 'a data_array \<Rightarrow> error + 'a data_array" where
  "pad x_start x_end y_start y_end fill a =
     (if x_start < 0 \<or> x_end < 0 \<or> y_start < 0 \<or> y_end < 0 then Inl ValueError
      else
        let ny = nat y_start + y_size a + nat y_end in
        Inr (a\<lparr>x_size := nat x_start + x_size a + nat x_end,
               y_size := ny,
               planes := map (\<lambda>p. pad_list (nat x_start) (nat x_end) (replicate ny fill)
                                    (map (pad_list (nat y_start) (nat y_end) fill) p))
                             (planes a)\<rparr>))"

definition pad_xy_xarray :: "'a \<Rightarrow> 'a data_array \<Rightarrow> int \<Rightarrow> error + 'a data_array" where
  "pad_xy_xarray fill xarr pixel_edge_size =
     (let x_diff = pixel_edge_size - int (x_size xarr);
          y_diff = pixel_edge_size - int (y_size xarr);
          x_start = x_diff div 2;
          x_end = x_diff - x_start;
          y_start = y_diff div 2;
          y_end = y_diff - y_start
      in pad x_start x_end y_start y_end fill xarr)"

text \<open>
  The padding in the words of its description, for one plane of extents \<open>nx\<close> by \<open>ny\<close>:
  per axis the difference to the edge size, the lower side padded with the difference
  halved (rounded down), the upper side with the remainder, every new cell the fill
  value. The theorems compare \<open>pad_xy_xarray\<close> with it.
\<close>

definition center_padded :: "int \<Rightarrow> 'a \<Rightarrow> nat \<Rightarrow> nat \<Rightarrow> 'a list list \<Rightarrow> 'a list list" where
  "center_padded edge fill nx ny p =
     (let x_lower = nat ((edge - int nx) div 2);
          x_upper = nat (edge - int nx) - x_lower;
          y_lower = nat ((edge - int ny) div 2);
          y_upper = nat (edge - int ny) - y_lower
      in replicate x_lower (replicate (nat edge) fill)
         @ map (\<lambda>row. replicate y_lower fill @ row @ replicate y_upper fill) p
         @ replicate x_upper (replicate (nat edge) fill))"

subsection \<open>\<open>ChipsDataset.clip_chip\<close> (dataloaders.py)\<close>

definition clip_chip :: "int \<Rightarrow> 'a data_array \<Rightarrow> 'a data_array" where
  "clip_chip chip_size xarr =
     (let x_diff = int (x_size xarr) - chip_size;
          y_diff = int (y_size xarr) - chip_size;
          x_start = x_diff div 2;
          x_end = x_diff - x_start;
          y_start = y_diff div 2;
          y_end = y_diff - y_start
      in sel_xy x_start (- x_end) y_start (- y_end) xarr)"

section \<open>The dataset layer (dataloaders.py)\<close>

subsection \<open>Tensors and \<open>PreprocesNormalization\<close>\<close>

text \<open>
  A tensor made from an array by \<open>torch.as_tensor(xarr.to_numpy(), dtype=torch.float)\<close>:
  its shape is the array's, its cells are the array's cells.
\<close>

record 'a tensor =
  shape :: "nat list"
  cells :: "'a list list list"

definition as_tensor :: "'a data_array \<Rightarrow> 'a tensor" where
  "as_tensor xarr =
     \<lparr>shape = [length (planes xarr), x_size xarr, y_size xarr] @ trail xarr,
      cells = planes xarr\<rparr>"

text \<open>Subtraction and division of floats; neither raises.\<close>

fun fsub :: "pyfloat \<Rightarrow> pyfloat \<Rightarrow> pyfloat" where
  "fsub NaN _ = NaN"
| "fsub _ NaN = NaN"
| "fsub (Num a) (Num b) = Num (a - b)"
| "fsub (Num a) PosInf = NegInf"
| "fsub (Num a) NegInf = PosInf"
| "fsub PosInf PosInf = NaN"
| "fsub PosInf _ = PosInf"
| "fsub NegInf NegInf = NaN"
| "fsub NegInf _ = NegInf"

fun fdiv :: "pyfloat \<Rightarrow> pyfloat \<Rightarrow> pyfloat" where
  "fdiv NaN _ = NaN"
| "fdiv _ NaN = NaN"
| "fdiv (Num a) (Num b) =
     (if b = 0 then (if a = 0 then NaN else if 0 < a then PosInf else NegInf)
      else Num (a / b))"
| "fdiv (Num a) _ = Num 0"
| "fdiv PosInf (Num b) = (if b < 0 then NegInf else PosInf)"
| "fdiv NegInf (Num b) = (if b < 0 then PosInf else NegInf)"
| "fdiv _ _ = NaN"

text \<open>
  \<open>PreprocesNormalization\<close>: \<open>means\<close> and \<open>stds\<close> are viewed as tensors of shape
  \<open>(1, 1, 1, -1)\<close>, so \<open>forward\<close> broadcasts them along the last axis of its argument.
  Two sizes broadcast when they are equal or one of them is 1; otherwise torch raises
  a \<open>RuntimeError\<close>.
\<close>

record preproces_normalization =
  means :: "pyfloat list"
  stds :: "pyfloat list"

definition broadcast_cell :: "(pyfloat \<Rightarrow> pyfloat \<Rightarrow> pyfloat) \<Rightarrow> pyfloat list \<Rightarrow> pyfloat list \<Rightarrow> pyfloat list" where
  "broadcast_cell f c v =
     (if length c = length v then map2 f c v
      else if length v = 1 then map (\<lambda>a. f a (hd v)) c
      else map (f (hd c)) v)"

definition broadcast_last :: "(pyfloat \<Rightarrow> pyfloat \<Rightarrow> pyfloat) \<Rightarrow> (pyfloat list) tensor \<Rightarrow> pyfloat list
    \<Rightarrow> error + (pyfloat list) tensor" where
  "broadcast_last f x v =
     (let b = (if shape x = [] then 1 else last (shape x)); m = length v in
      if b = m \<or> m = 1 \<or> b = 1 then
        Inr \<lparr>shape = butlast (shape x) @ [if m = 1 then b else m],
             cells = map (map (map (\<lambda>c. broadcast_cell f c v))) (cells x)\<rparr>
      else Inl RuntimeError)"

definition forward :: "preproces_normalization \<Rightarrow> (pyfloat list) tensor \<Rightarrow> error + (pyfloat list) tensor" where
  "forward self x =
     (case broadcast_last fsub x (means self) of
        Inl e \<Rightarrow> Inl e
      | Inr d \<Rightarrow> broadcast_last fdiv d (stds self))"

subsection \<open>\<open>ChipsDataset\<close>\<close>

record chips_dataset =
  file_type :: string
  chip_data_path :: string
  anno_data_path :: "string option"
  sample_path :: string
  chip_size :: int
  base_year :: "int option"
  back_step :: "int option"
  include_names :: bool
  normalize :: "preproces_normalization option"

text \<open>
  \<open>ChipsDataset.__init__\<close>: the normalization exists when \<open>means\<close> and \<open>stds\<close> are both
  truthy, that is given and not empty.
\<close>

definition truthy :: "'a list option \<Rightarrow> bool" where
  "truthy v = (case v of None \<Rightarrow> False | Some xs \<Rightarrow> xs \<noteq> [])"

definition ChipsDataset :: "pyfloat list option \<Rightarrow> pyfloat list option \<Rightarrow> string \<Rightarrow> string
    \<Rightarrow> string option \<Rightarrow> string \<Rightarrow> int \<Rightarrow> int option \<Rightarrow> int option \<Rightarrow> bool \<Rightarrow> chips_dataset" where
  "ChipsDataset means_arg stds_arg ft chip_path anno_path samples edge base back names =
     \<lparr>file_type = ft, chip_data_path = chip_path, anno_data_path = anno_path,
      sample_path = samples, chip_size = edge, base_year = base, back_step = back,
      include_names = names,
      normalize = (case (means_arg, stds_arg) of
                     (Some m, Some s) \<Rightarrow>
                       if truthy means_arg \<and> truthy stds_arg
                       then Some \<lparr>means = m, stds = s\<rparr> else None
                   | _ \<Rightarrow> None)\<rparr>"

text \<open>
  What the dataset reads: the sample-index stores (one entry per index, with the
  square's name and year), the chip stores and the annotation stores, each found by
  its path and, inside an array store, by the square's name.
\<close>

record sample =
  s_square_name :: string
  s_year :: int

record stores =
  sample_stores :: "string \<Rightarrow> sample list option"
  chip_stores :: "string \<Rightarrow> (string \<Rightarrow> (pyfloat list) data_array option) option"
  anno_stores :: "string \<Rightarrow> (string \<Rightarrow> pyfloat data_array option) option"

text \<open>\<open>xr.open_zarr(data_path)[name]\<close>\<close>

definition zarr_loader :: "(string \<Rightarrow> (string \<Rightarrow> 'a data_array option) option) \<Rightarrow> string \<Rightarrow> string
    \<Rightarrow> error + 'a data_array" where
  "zarr_loader fs data_path name =
     (case fs data_path of
        None \<Rightarrow> Inl FileNotFoundError
      | Some store \<Rightarrow> (case store name of None \<Rightarrow> Inl KeyError | Some img \<Rightarrow> Inr img))"

text \<open>\<open>slice_year\<close>: subtracting an absent setting from an integer is a \<open>TypeError\<close>.\<close>

definition slice_year :: "chips_dataset \<Rightarrow> 'a data_array \<Rightarrow> int \<Rightarrow> error + 'a data_array" where
  "slice_year self xarr year =
     (case base_year self of
        None \<Rightarrow> Inl TypeError
      | Some base \<Rightarrow>
          (case back_step self of
             None \<Rightarrow> Inl TypeError
           | Some back \<Rightarrow>
               let end_year = year - base;
                   start_year = end_year - back
               in Inr (sel_lead start_year (end_year + 1) xarr)))"

definition clip_if_larger :: "chips_dataset \<Rightarrow> 'a data_array \<Rightarrow> 'a data_array" where
  "clip_if_larger self xarr =
     (if chip_size self < int (max (x_size xarr) (y_size xarr))
      then clip_chip (chip_size self) xarr else xarr)"

definition get_strata :: "chips_dataset \<Rightarrow> stores \<Rightarrow> string \<Rightarrow> string \<Rightarrow> error + pyfloat tensor" where
  "get_strata self fs anno_path name =
     (case zarr_loader (anno_stores fs) anno_path name of
        Inl e \<Rightarrow> Inl e
      | Inr strata \<Rightarrow> Inr (as_tensor (clip_if_larger self strata)))"

datatype item = Chip "(pyfloat list) tensor" | Annotation "pyfloat tensor" | Name string

text \<open>
  \<open>ChipsDataset.__getitem__\<close>. The list \<open>item\<close> is built from the tensor \<open>chip\<close> before
  the normalization runs, and the normalization's result is bound to the local name
  \<open>chip\<close> only: \<open>item\<close> keeps the tensor it was built from. An exception of the
  normalization still ends the call.
\<close>

definition getitem :: "chips_dataset \<Rightarrow> stores \<Rightarrow> nat \<Rightarrow> error + item list" where
  "getitem self fs idx =
     (case sample_stores fs (sample_path self) of
        None \<Rightarrow> Inl FileNotFoundError
      | Some paths \<Rightarrow>
          if length paths \<le> idx then Inl IndexError
          else
            let name = s_square_name (paths ! idx);
                year = s_year (paths ! idx)
            in
            (case zarr_loader (chip_stores fs) (chip_data_path self) name of
               Inl e \<Rightarrow> Inl e
             | Inr img \<Rightarrow>
                 (case (if base_year self \<noteq> None \<and> back_step self \<noteq> None
                        then slice_year self img year else Inr img) of
                    Inl e \<Rightarrow> Inl e
                  | Inr sliced \<Rightarrow>
                      let chip = as_tensor (clip_if_larger self sliced);
                          item = [Chip chip]
                      in
                      (case (case normalize self of
                               None \<Rightarrow> Inr chip
                             | Some n \<Rightarrow> forward n chip) of
                         Inl e \<Rightarrow> Inl e
                       | Inr normalized \<Rightarrow>
                           (case (case anno_data_path self of
                                    None \<Rightarrow> Inr item
                                  | Some anno_path \<Rightarrow>
                                      (case get_strata self fs anno_path name of
                                         Inl e \<Rightarrow> Inl e
                                       | Inr strata \<Rightarrow> Inr (item @ [Annotation strata]))) of
                              Inl e \<Rightarrow> Inl e
                            | Inr item2 \<Rightarrow>
                                Inr (if include_names self then item2 @ [Name name]
                                     else item2))))))"

section \<open>Example inputs of the dataset layer\<close>

text \<open>An annotation-like array with one 8-by-8 plane whose cells are all different.\<close>

definition chip_8x8 :: "pyfloat data_array" where
  "chip_8x8 =
     \<lparr>da_name = VStr ''sq'', attrs = [], chunks = [], x_size = 8, y_size = 8, trail = [],
      planes = [map (\<lambda>i. map (\<lambda>j. Num (of_nat (8 * i + j))) [0..<8]) [0..<8]]\<rparr>"

text \<open>
  A chip store with one square of extents (x=3, y=2) and one year, read by a dataset
  of chip size 2.
\<close>

definition straddling_chip :: "(pyfloat list) data_array" where
  "straddling_chip =
     \<lparr>da_name = VStr ''sq'', attrs = [], chunks = [(''year'', 1)], x_size = 3, y_size = 2,
      trail = [1],
      planes = [[[[Num 1], [Num 2]], [[Num 3], [Num 4]], [[Num 5], [Num 6]]]]\<rparr>"

definition straddling_stores :: stores where
  "straddling_stores =
     \<lparr>sample_stores = [''samples'' \<mapsto> [\<lparr>s_square_name = ''sq'', s_year = 2020\<rparr>]],
      chip_stores = [''chips'' \<mapsto> [''sq'' \<mapsto> straddling_chip]],
      anno_stores = (\<lambda>p. None)\<rparr>"

definition straddling_dataset :: chips_dataset where
  "straddling_dataset =
     ChipsDataset None None ''zarr'' ''chips'' None ''samples'' 2 None None False"

text \<open>
  A dataset with normalization (mean 1, standard deviation 2), an annotation store and
  names, over a square with a single cell of value 3.
\<close>

definition unit_chip :: "(pyfloat list) data_array" where
  "unit_chip =
     \<lparr>da_name = VStr ''sq'', attrs = [], chunks = [(''year'', 1)], x_size = 1, y_size = 1,
      trail = [1], planes = [[[[Num 3]]]]\<rparr>"

definition unit_anno :: "pyfloat data_array" where
  "unit_anno =
     \<lparr>da_name = VStr ''sq'', attrs = [], chunks = [(''strata'', 1)], x_size = 1, y_size = 1,
      trail = [], planes = [[[Num 1]]]\<rparr>"

definition normalized_stores :: stores where
  "normalized_stores =
     \<lparr>sample_stores = [''samples'' \<mapsto> [\<lparr>s_square_name = ''sq'', s_year = 2020\<rparr>]],
      chip_stores = [''chips'' \<mapsto> [''sq'' \<mapsto> unit_chip]],
      anno_stores = [''annos'' \<mapsto> [''sq'' \<mapsto> unit_anno]]\<rparr>"

definition normalized_dataset :: chips_dataset where
  "normalized_dataset =
     ChipsDataset (Some [Num 1]) (Some [Num 2]) ''zarr'' ''chips'' (Some ''annos'') ''samples'' 1
       None None True"

text \<open>
  A chip store whose square holds four years (offsets 0 to 3 from the base year 2000),
  read with a back-step of one year by a record of the year 2002 and a record of the
  year 2000.
\<close>

definition four_year_chip :: "(pyfloat list) data_array" where
  "four_year_chip =
     \<lparr>da_name = VStr ''sq'', attrs = [], chunks = [(''year'', 1)], x_size = 1, y_size = 1,
      trail = [1], planes = [[[[Num 10]]], [[[Num 11]]], [[[Num 12]]], [[[Num 13]]]]\<rparr>"

definition four_year_stores :: stores where
  "four_year_stores =
     \<lparr>sample_stores = [''samples'' \<mapsto> [\<lparr>s_square_name = ''sq'', s_year = 2002\<rparr>,
                                        \<lparr>s_square_name = ''sq'', s_year = 2000\<rparr>]],
      chip_stores = [''chips'' \<mapsto> [''sq'' \<mapsto> four_year_chip]],
      anno_stores = (\<lambda>p. None)\<rparr>"

definition four_year_dataset :: chips_dataset where
  "four_year_dataset =
     ChipsDataset None None ''zarr'' ''chips'' None ''samples'' 1 (Some 2000) (Some 1) False"

section \<open>Naming coordinates (pipeline/utils.py)\<close>

text \<open>
  The values \<open>generate_coords_name\<close> can be handed: a number, a tuple or a list.
  Numbers are kept abstract; \<open>fmt\<close> below is Python's \<open>str\<close> on them.
\<close>

datatype 'a pyobj = Atom 'a | Tuple "'a pyobj list" | PList "'a pyobj list"

definition join :: "string \<Rightarrow> string list \<Rightarrow> string" where
  "join sep xs = (case xs of [] \<Rightarrow> [] | y # ys \<Rightarrow> foldl (\<lambda>acc s. acc @ sep @ s) y ys)"

text \<open>\<open>str\<close> of a value, as an f-string field renders it.\<close>

fun py_str :: "('a \<Rightarrow> string) \<Rightarrow> 'a pyobj \<Rightarrow> string" where
  "py_str fmt (Atom a) = fmt a"
| "py_str fmt (Tuple [v]) = ''('' @ py_str fmt v @ '',)''"
| "py_str fmt (Tuple vs) = ''('' @ join '', '' (map (py_str fmt) vs) @ '')''"
| "py_str fmt (PList vs) = ''['' @ join '', '' (map (py_str fmt) vs) @ '']''"

text \<open>\<open>len\<close> and indexing need a sequence; a number has neither.\<close>

fun elements :: "'a pyobj \<Rightarrow> error + 'a pyobj list" where
  "elements (Atom a) = Inl TypeError"
| "elements (Tuple vs) = Inr vs"
| "elements (PList vs) = Inr vs"

text \<open>The target list \<open>x, y\<close> of the comprehension takes exactly two elements.\<close>

definition unpack_pair :: "'a pyobj \<Rightarrow> error + ('a pyobj \<times> 'a pyobj)" where
  "unpack_pair c =
     (case elements c of
        Inl e \<Rightarrow> Inl e
      | Inr vs \<Rightarrow> (case vs of [x, y] \<Rightarrow> Inr (x, y) | _ \<Rightarrow> Inl ValueError))"

text \<open>A comprehension stops at the first element that raises.\<close>

fun collect :: "('a \<Rightarrow> error + 'b) \<Rightarrow> 'a list \<Rightarrow> error + 'b list" where
  "collect f [] = Inr []"
| "collect f (x # xs) =
     (case f x of
        Inl e \<Rightarrow> Inl e
      | Inr y \<Rightarrow> (case collect f xs of Inl e \<Rightarrow> Inl e | Inr ys \<Rightarrow> Inr (y # ys)))"

definition segment :: "('a \<Rightarrow> string) \<Rightarrow> 'a pyobj \<times> 'a pyobj \<Rightarrow> string" where
  "segment fmt p = ''x'' @ py_str fmt (fst p) @ ''y'' @ py_str fmt (snd p)"

definition generate_coords_name :: "('a \<Rightarrow> string) \<Rightarrow> 'a pyobj \<Rightarrow> error + string" where
  "generate_coords_name fmt coords =
     (case elements coords of
        Inl e \<Rightarrow> Inl e
      | Inr cs \<Rightarrow>
          if length cs > 2 then
            (case collect unpack_pair (butlast cs) of
               Inl e \<Rightarrow> Inl e
             | Inr ps \<Rightarrow> Inr (join ''_'' (map (segment fmt) ps)))
          else if length cs < 2 then Inl IndexError
          else Inr (''x'' @ py_str fmt (cs ! 0) @ ''y'' @ py_str fmt (cs ! 1)))"

text \<open>Python's \<open>str\<close> on an integer: decimal digits, with a minus sign when negative.\<close>

fun str_nat :: "nat \<Rightarrow> string" where
  "str_nat n =
     (if n < 10 then [''0123456789'' ! n]
      else str_nat (n div 10) @ [''0123456789'' ! (n mod 10)])"

declare str_nat.simps [simp del]

definition str_int :: "int \<Rightarrow> string" where
  "str_int i = (if i < 0 then ''-'' @ str_nat (nat (- i)) else str_nat (nat i))"

definition pair :: "int \<Rightarrow> int \<Rightarrow> int pyobj" where
  "pair x y = Tuple [Atom x, Atom y]"

section \<open>Metadata records (pipeline/utils.py)\<close>

text \<open>
  The metadata catalog is an \<open>xarray.Dataset\<close> over the dimension \<open>index\<close>: an ordered
  dictionary from variable names to columns, one value per index.
\<close>

type_synonym dataset = "(string \<times> val list) list"

text \<open>\<open>s in k\<close> on strings.\<close>

fun contains :: "string \<Rightarrow> string \<Rightarrow> bool" where
  "contains s [] = (s = [])"
| "contains s (c # cs) = (take (length s) (c # cs) = s \<or> contains s cs)"

text \<open>\<open>meta_data[name].isel(index=index)\<close>\<close>

definition isel :: "dataset \<Rightarrow> string \<Rightarrow> nat \<Rightarrow> error + val" where
  "isel meta_data name index =
     (case map_of meta_data name of
        None \<Rightarrow> Inl KeyError
      | Some col \<Rightarrow> if index < length col then Inr (col ! index) else Inl IndexError)"

text \<open>
  \<open>.values.item()\<close>: the value at the index as a Python scalar; an array of another
  size than 1 has no \<open>item()\<close>.
\<close>

definition item_at :: "dataset \<Rightarrow> string \<Rightarrow> nat \<Rightarrow> error + val" where
  "item_at meta_data name index =
     (case isel meta_data name index of
        Inl e \<Rightarrow> Inl e
      | Inr (VVec cs) \<Rightarrow> if length cs = 1 then Inr (VFloat (hd cs)) else Inl ValueError
      | Inr v \<Rightarrow> Inr v)"

text \<open>
  \<open>meta_data[columns].isel(index=index).to_dataarray().values.tolist()\<close>: one row per
  selected column, the column's coordinate vector at the index. Stacking no column at
  all is a \<open>ValueError\<close>; a column without coordinate vectors has no row that could be
  iterated (\<open>TypeError\<close>).
\<close>

definition row_of :: "val \<Rightarrow> error + pyfloat list" where
  "row_of v = (case v of VVec cs \<Rightarrow> Inr cs | _ \<Rightarrow> Inl TypeError)"

definition rows_at :: "dataset \<Rightarrow> string list \<Rightarrow> nat \<Rightarrow> error + pyfloat list list" where
  "rows_at meta_data columns index =
     (case collect (\<lambda>k. isel meta_data k index) columns of
        Inl e \<Rightarrow> Inl e
      | Inr vals \<Rightarrow> if vals = [] then Inl ValueError else collect row_of vals)"

text \<open>
  \<open>datetime(year, month, day)\<close> refuses a year outside 1..9999, a month outside 1..12
  and a day that the month does not have.
\<close>

datatype datetime = Datetime (dt_year: int) (dt_month: int) (dt_day: int)

definition days_in_month :: "int \<Rightarrow> int \<Rightarrow> int" where
  "days_in_month y m =
     (if m = 2 then (if y mod 4 = 0 \<and> (y mod 100 \<noteq> 0 \<or> y mod 400 = 0) then 29 else 28)
      else if m = 4 \<or> m = 6 \<or> m = 9 \<or> m = 11 then 30 else 31)"

definition datetime :: "int \<Rightarrow> int \<Rightarrow> int \<Rightarrow> error + datetime" where
  "datetime y m d =
     (if 1 \<le> y \<and> y \<le> 9999 \<and> 1 \<le> m \<and> m \<le> 12 \<and> 1 \<le> d \<and> d \<le> days_in_month y m
      then Inr (Datetime y m d) else Inl ValueError)"

text \<open>The components of the tuple that \<open>parse_meta_data\<close> returns.\<close>

datatype tuple_item =
    FCoords "pyfloat list list"
  | FVal val
  | FDate "datetime option"
  | FAttrs "(string \<times> val) list"

text \<open>
  The dates of a record: from its year when the catalog has a \<open>year\<close> variable, absent
  otherwise. The end date is built first.
\<close>

definition record_dates :: "dataset \<Rightarrow> nat \<Rightarrow> int \<Rightarrow> error + (datetime option \<times> datetime option)" where
  "record_dates meta_data index bstep =
     (if ''year'' \<in> set (map fst meta_data) then
        (case item_at meta_data ''year'' index of
           Inl e \<Rightarrow> Inl e
         | Inr (VInt end_year) \<Rightarrow>
             (case datetime end_year 9 1 of
                Inl e \<Rightarrow> Inl e
              | Inr end_date \<Rightarrow>
                  (case datetime (end_year - bstep) 6 1 of
                     Inl e \<Rightarrow> Inl e
                   | Inr start_date \<Rightarrow> Inr (Some start_date, Some end_date)))
         | Inr _ \<Rightarrow> Inl TypeError)
      else Inr (None, None))"

text \<open>
  \<open>attributes\<close>: the value at the index of every variable whose name contains none of
  \<open>geometry\<close>, \<open>square\<close>, \<open>point\<close>.
\<close>

definition record_attributes :: "dataset \<Rightarrow> nat \<Rightarrow> error + (string \<times> val) list" where
  "record_attributes meta_data index =
     (case collect (\<lambda>k. case isel meta_data k index of Inl e \<Rightarrow> Inl e | Inr v \<Rightarrow> Inr (k, v))
             (map fst meta_data) of
        Inl e \<Rightarrow> Inl e
      | Inr data_vars \<Rightarrow>
          Inr (filter (\<lambda>(k, v). list_all (\<lambda>s. \<not> contains s k) [''geometry'', ''square'', ''point''])
                 data_vars))"

text \<open>
  \<open>parse_meta_data\<close>. \<open>square_columns\<close> is \<open>SQUARE_COLUMNS\<close> of the settings module. A
  pair of the geometry is kept when every component equals itself.
\<close>

definition parse_meta_data :: "string list \<Rightarrow> dataset \<Rightarrow> nat \<Rightarrow> int \<Rightarrow> error + tuple_item list" where
  "parse_meta_data square_columns meta_data index bstep =
     (let geometry_columns = filter (contains ''geometry_'') (map fst meta_data) in
      case rows_at meta_data geometry_columns index of
        Inl e \<Rightarrow> Inl e
      | Inr geometry_values \<Rightarrow>
      let geometry = filter (list_all (\<lambda>c. float_eq c c)) geometry_values in
      case item_at meta_data ''point_coords'' index of
        Inl e \<Rightarrow> Inl e
      | Inr point_coords \<Rightarrow>
      case item_at meta_data ''point_name'' index of
        Inl e \<Rightarrow> Inl e
      | Inr point_name \<Rightarrow>
      case rows_at meta_data square_columns index of
        Inl e \<Rightarrow> Inl e
      | Inr square_coords \<Rightarrow>
      case item_at meta_data ''square_name'' index of
        Inl e \<Rightarrow> Inl e
      | Inr square_name \<Rightarrow>
      case record_dates meta_data index bstep of
        Inl e \<Rightarrow> Inl e
      | Inr (start_date, end_date) \<Rightarrow>
      case record_attributes meta_data index of
        Inl e \<Rightarrow> Inl e
      | Inr attributes \<Rightarrow>
          Inr [FCoords geometry, FVal point_coords, FVal point_name, FCoords square_coords,
               FVal square_name, FDate start_date, FDate end_date, FAttrs attributes])"

text \<open>
  A catalog of two records with a year: the third geometry pair of the first record is
  the fill value.
\<close>

definition catalog_with_year :: dataset where
  "catalog_with_year =
     [(''geometry_0'', [VVec [Num 1, Num 2], VVec [Num 1, Num 2]]),
      (''geometry_1'', [VVec [Num 3, Num 4], VVec [Num 3, Num 4]]),
      (''geometry_2'', [VVec [NaN, NaN], VVec [Num 5, NaN]]),
      (''point_coords'', [VTuple [Num 1, Num 2], VTuple [Num 1, Num 2]]),
      (''point_name'', [VStr ''x1y2'', VStr ''x1y2'']),
      (''square_0'', [VVec [Num 0, Num 0], VVec [Num 0, Num 0]]),
      (''square_1'', [VVec [Num 9, Num 9], VVec [Num 9, Num 9]]),
      (''square_name'', [VStr ''sq0'', VStr ''sq1'']),
      (''year'', [VInt 2020, VInt 2015]),
      (''stratum'', [VStr ''forest'', VStr ''water''])]"

definition catalog_without_year :: dataset where
  "catalog_without_year = filter (\<lambda>(k, col). k \<noteq> ''year'') catalog_with_year"

section \<open>Reshaping raw pixels (pipeline/utils.py)\<close>

text \<open>
  The constants of the settings module that the modelled code reads. Their values are
  parameters of the model.
\<close>

record settings =
  NO_DATA_VALUE :: pyfloat
  STRATA_ATTR_NAME :: string
  STRATA_DIM_NAME :: string
  SQUARE_COLUMNS :: "string list"
  FILE_EXT_MAP :: "(string \<times> string) list"

text \<open>
  The structured array that the imagery service returns: named fields, each an
  \<open>x\<close>-by-\<open>y\<close> array, and the common shape.
\<close>

record pixels =
  named_fields :: "(string \<times> pyfloat list list) list"
  shape_x :: nat
  shape_y :: nat

fun split_on :: "char \<Rightarrow> string \<Rightarrow> string list" where
  "split_on c [] = [[]]"
| "split_on c (x # xs) =
     (if x = c then [] # split_on c xs
      else (case split_on c xs of [] \<Rightarrow> [[x]] | p # ps \<Rightarrow> (x # p) # ps))"

text \<open>
  \<open>years, bands = zip(*rows)\<close>: \<open>zip\<close> stops at the shortest row, and the two targets
  take exactly two tuples.
\<close>

definition unzip_pairs :: "string list list \<Rightarrow> error + (string list \<times> string list)" where
  "unzip_pairs rows =
     (if rows \<noteq> [] \<and> list_all (\<lambda>r. 2 \<le> length r) rows \<and> list_ex (\<lambda>r. length r = 2) rows
      then Inr (map (\<lambda>r. r ! 0) rows, map (\<lambda>r. r ! 1) rows)
      else Inl ValueError)"

text \<open>\<open>arr[name]\<close>: numpy knows no field of another name (\<open>ValueError\<close>).\<close>

definition get_field :: "pixels \<Rightarrow> string \<Rightarrow> error + pyfloat list list" where
  "get_field arr name = (case map_of (named_fields arr) name of None \<Rightarrow> Inl ValueError | Some f \<Rightarrow> Inr f)"

text \<open>\<open>np.dstack\<close> of arrays of shape \<open>(x, y)\<close>: a cell holds the arrays' values there.\<close>

definition dstack :: "nat \<Rightarrow> nat \<Rightarrow> pyfloat list list list \<Rightarrow> pyfloat list list list" where
  "dstack nx ny fs = map (\<lambda>i. map (\<lambda>j. map (\<lambda>f. f ! i ! j) fs) [0..<ny]) [0..<nx]"

text \<open>\<open>d | {key: v}\<close> and \<open>d[key] = v\<close> on a dictionary kept as an association list.\<close>

fun dict_set :: "'k \<Rightarrow> 'v \<Rightarrow> ('k \<times> 'v) list \<Rightarrow> ('k \<times> 'v) list" where
  "dict_set k v [] = [(k, v)]"
| "dict_set k v (kv # rest) = (if fst kv = k then (k, v) # rest else kv # dict_set k v rest)"

text \<open>\<open>xs[a:b] = v\<close>, with \<open>v\<close> broadcast over the selected positions.\<close>

definition assign_slice :: "int \<Rightarrow> int \<Rightarrow> 'a \<Rightarrow> 'a list \<Rightarrow> 'a list" where
  "assign_slice a b v xs =
     (let lo = slice_bound a (length xs); n = slice_len a b (length xs)
      in take lo xs @ replicate n v @ drop (lo + n) xs)"

text \<open>
  The chip array of \<open>zarr_reshape\<close>: one \<open>(x, y, band)\<close> block per year, concatenated
  along the new dimension \<open>year\<close>. \<open>set(years)\<close> and \<open>set(bands)\<close> are enumerated in the
  order of first occurrence (Python leaves the order of a set open).
\<close>

definition stack_years :: "pixels \<Rightarrow> string list \<Rightarrow> string list
    \<Rightarrow> error + (pyfloat list) list list list" where
  "stack_years arr years bands =
     collect (\<lambda>y. case collect (\<lambda>b. get_field arr (y @ ''_'' @ b)) bands of
                     Inl e \<Rightarrow> Inl e
                   | Inr fs \<Rightarrow> if fs = [] then Inl ValueError
                              else Inr (dstack (shape_x arr) (shape_y arr) fs))
       years"

text \<open>
  The annotation array: one plane of zeros per entry of the strata map, and the
  overlap mask assigned to the slice \<open>[stratum_idx : stratum_idx + 1]\<close>. (The result of
  \<open>xarr.assign_coords\<close> before it is dropped by the code.)
\<close>

definition annotation :: "settings \<Rightarrow> pixels \<Rightarrow> val \<Rightarrow> (string \<times> val) list
    \<Rightarrow> (val \<times> int) list option \<Rightarrow> error + pyfloat data_array option" where
  "annotation cfg arr square_name xattrs strata_map =
     (if ''overlap'' \<in> set (map fst (named_fields arr)) \<and> STRATA_ATTR_NAME cfg \<in> set (map fst xattrs)
      then
        (case get_field arr ''overlap'' of
           Inl e \<Rightarrow> Inl e
         | Inr overlap \<Rightarrow>
             (case map_of xattrs (STRATA_ATTR_NAME cfg) of
                None \<Rightarrow> Inl KeyError
              | Some stratum \<Rightarrow>
                  (case strata_map of
                     None \<Rightarrow> Inl TypeError
                   | Some smap \<Rightarrow>
                       (case map_of smap stratum of
                          None \<Rightarrow> Inl KeyError
                        | Some stratum_idx \<Rightarrow>
                            let zero = replicate (shape_x arr) (replicate (shape_y arr) (Num 0));
                                xarr_ann_list = map (\<lambda>s. zero) smap
                            in Inr (Some
                                 \<lparr>da_name = square_name, attrs = [], chunks = [],
                                  x_size = shape_x arr, y_size = shape_y arr, trail = [],
                                  planes = assign_slice stratum_idx (stratum_idx + 1) overlap
                                             xarr_ann_list\<rparr>)))))
      else Inr None)"

text \<open>
  \<open>zarr_reshape\<close>. \<open>attributes\<close> and \<open>strata_map\<close> may be \<open>None\<close>; merging \<open>None\<close> with a
  dictionary is a \<open>TypeError\<close>.
\<close>

definition zarr_reshape :: "settings \<Rightarrow> pixels \<Rightarrow> int \<Rightarrow> val \<Rightarrow> val
    \<Rightarrow> (string \<times> val) list option \<Rightarrow> (val \<times> int) list option
    \<Rightarrow> error + ((pyfloat list) data_array \<times> pyfloat data_array option)" where
  "zarr_reshape cfg arr pixel_edge_size square_name point_name attributes strata_map =
     (case unzip_pairs (map (split_on CHR ''_'')
                          (filter (\<lambda>b. b \<noteq> ''overlap'') (map fst (named_fields arr)))) of
        Inl e \<Rightarrow> Inl e
      | Inr (all_years, all_bands) \<Rightarrow>
      let years = remdups all_years; bands = remdups all_bands in
      case stack_years arr years bands of
        Inl e \<Rightarrow> Inl e
      | Inr xr_list \<Rightarrow>
      case attributes of
        None \<Rightarrow> Inl TypeError
      | Some given \<Rightarrow>
      let new_attrs = dict_set ''point'' point_name given;
          xarr = \<lparr>da_name = square_name, attrs = new_attrs, chunks = [],
                  x_size = shape_x arr, y_size = shape_y arr, trail = [length bands],
                  planes = xr_list\<rparr>
      in
      case annotation cfg arr square_name (attrs xarr) strata_map of
        Inl e \<Rightarrow> Inl e
      | Inr xarr_ann \<Rightarrow>
      case (if pixel_edge_size > int (min (x_size xarr) (y_size xarr)) then
              (case pad_xy_xarray (replicate (length bands) (NO_DATA_VALUE cfg)) xarr
                      pixel_edge_size of
                 Inl e \<Rightarrow> Inl e
               | Inr padded \<Rightarrow>
                   (case xarr_ann of
                      None \<Rightarrow> Inr (padded, None)
                    | Some ann \<Rightarrow>
                        (case pad_xy_xarray (NO_DATA_VALUE cfg) ann pixel_edge_size of
                           Inl e \<Rightarrow> Inl e
                         | Inr padded_ann \<Rightarrow> Inr (padded, Some padded_ann))))
            else Inr (xarr, xarr_ann)) of
        Inl e \<Rightarrow> Inl e
      | Inr (xarr2, xarr_ann2) \<Rightarrow>
          Inr (xarr2\<lparr>chunks := [(''year'', 1)]\<rparr>,
               map_option (\<lambda>ann. ann\<lparr>chunks := [(STRATA_DIM_NAME cfg, 1)]\<rparr>) xarr_ann2))"

text \<open>
  A raw array of one pixel with one year, one band and an overlap field, for a record
  of the stratum \<open>forest\<close>, and a strata map of two strata.
\<close>

definition example_settings :: settings where
  "example_settings =
     \<lparr>NO_DATA_VALUE = Num (- 9999), STRATA_ATTR_NAME = ''stratum'', STRATA_DIM_NAME = ''strata'',
      SQUARE_COLUMNS = [''square_0'', ''square_1''],
      FILE_EXT_MAP = [(''ZARR'', ''zarr''), (''NPY'', ''npy'')]\<rparr>"

definition one_pixel :: pixels where
  "one_pixel =
     \<lparr>named_fields = [(''2020_B1'', [[Num 5]]), (''overlap'', [[Num 1]])], shape_x = 1, shape_y = 1\<rparr>"

definition two_strata :: "(val \<times> int) list" where
  "two_strata = [(VStr ''forest'', 0), (VStr ''water'', 1)]"

section \<open>The download orchestrator (pipeline/downloader.py)\<close>

subsection \<open>Messages, tasks and the world\<close>

datatype level = DEBUG | INFO | WARNING | ERROR | CRITICAL

text \<open>The texts of the reports, by what they say and about which square.\<close>

datatype message =
    Starting nat
  | Completed nat nat val
  | WorkersTerminated nat nat
  | DownloadCompleted
  | Finalizing
  | PolygonExists val
  | ValidException error val
  | FailedRead error
  | CreatingPayload val
  | Coordinates
  | Reprojecting string val
  | FailedPayload error val
  | RequestingPixels val
  | FailedAttempt int int error val
  | MaxRetries val
  | Retrying val
  | AttemptingSave val
  | Reshaping val
  | WritingChip val
  | WritingAnno val
  | FailedWrite error val
  | FailedClean error val

text \<open>
  What lies in the report queue: a \<open>(level, message)\<close> tuple or, from the one call
  \<open>report_queue.put("INFO", text)\<close> that passes the text as the \<open>block\<close> argument, the
  bare level.
\<close>

datatype report = Report level message | Bare string

text \<open>
  A path: a directory or store given in the configuration, or
  \<open>os.path.join(directory, f"{square_name}.{file_ext}")\<close>.
\<close>

datatype path = Dir string | File string val string

record payload =
  expression :: string
  fileFormat :: string

record task =
  t_payload :: payload
  t_square_name :: val
  t_point_name :: val
  t_chip_data_path :: path
  t_anno_data_path :: path
  t_attributes :: "(string \<times> val) list"

text \<open>What \<open>ee.data.computePixels\<close> returns: the bytes of a file or a structured array.\<close>

datatype raw = RawBytes string | RawPixels pixels

text \<open>
  A chunked store at a path: not there, there with its named arrays, or unreadable
  (opening it raises something else than the not-found errors).
\<close>

datatype 'a zarr = Missing | Unreadable | Store "val \<Rightarrow> 'a option"

text \<open>The array a store holds under a name, if any.\<close>

definition stored :: "'a zarr \<Rightarrow> val \<Rightarrow> 'a option" where
  "stored z name = (case z of Store m \<Rightarrow> m name | _ \<Rightarrow> None)"

text \<open>
  The state shared by the processes: the three queues (\<open>None\<close> is the sentinel), the
  files and the two chunked stores. A queue is the list of what was put and not yet
  taken, oldest first.
\<close>

record world =
  image_queue :: "task option list"
  result_queue :: "val option list"
  report_queue :: "report option list"
  files :: "path \<Rightarrow> raw option"
  chip_zarr :: "string \<Rightarrow> (pyfloat list) data_array zarr"
  anno_zarr :: "string \<Rightarrow> pyfloat data_array zarr"

definition report_put :: "report \<Rightarrow> world \<Rightarrow> world" where
  "report_put r w = w\<lparr>report_queue := report_queue w @ [Some r]\<rparr>"

definition result_put :: "val option \<Rightarrow> world \<Rightarrow> world" where
  "result_put r w = w\<lparr>result_queue := result_queue w @ [r]\<rparr>"

definition image_put :: "task option \<Rightarrow> world \<Rightarrow> world" where
  "image_put t w = w\<lparr>image_queue := image_queue w @ [t]\<rparr>"

text \<open>The messages that the report queue holds at the level \<open>ERROR\<close>.\<close>

definition errors_reported :: "world \<Rightarrow> message set" where
  "errors_reported w = {m. Some (Report ERROR m) \<in> set (report_queue w)}"

subsection \<open>The imagery service\<close>

text \<open>
  An image of the service is kept as the text of its expression. The calls into the
  service and into the \<open>utm\<close> package are functions of the environment; each may raise.
  \<open>compute_pixels task n\<close> is the outcome of the \<open>n\<close>-th run of the consumer's \<open>try\<close> block
  for a task (acquiring the limiter, decoding the expression in place, requesting the
  pixels). \<open>estimate\<close> stands for \<open>estimate_download_size\<close>, whose body consists of
  requests to the service: it gives the size in MB, the pixel count and the band count.
\<close>

datatype arg =
    ADate "datetime option"
  | ACoords "pyfloat list list"
  | AInt int
  | ABool bool
  | AItem tuple_item

record service =
  image_gen :: "arg list \<Rightarrow> error + string"
  utm_zone :: "pyfloat list \<Rightarrow> error + string"
  reproject :: "string \<Rightarrow> string \<Rightarrow> int \<Rightarrow> error + string"
  encode :: "string \<Rightarrow> error + string"
  estimate :: "string \<Rightarrow> error + (rat \<times> nat \<times> nat)"
  compute_pixels :: "task \<Rightarrow> int \<Rightarrow> error + raw"
  write_raises :: "path \<Rightarrow> error option"
  unlink_raises :: "path \<Rightarrow> error option"
  loaded_strata_map :: "(val \<times> int) list option"

text \<open>
  \<open>lt_image_generator\<close> of pipeline/utils.py has six required parameters and one
  optional; a call with another number of arguments is a \<open>TypeError\<close>.
\<close>

definition lt_image_generator :: "service \<Rightarrow> arg list \<Rightarrow> error + string" where
  "lt_image_generator ee args =
     (if length args < 6 \<or> 7 < length args then Inl TypeError else image_gen ee args)"

subsection \<open>\<open>Downloader\<close>\<close>

text \<open>
  The options of the orchestrator that the modelled methods read, the catalog it opened
  and the catalog's size, and the settings module's constants.
\<close>

record downloader =
  d_start_date :: "datetime option"
  d_end_date :: "datetime option"
  d_file_type :: string
  d_overwrite :: bool
  d_scale :: int
  d_pixel_edge_size :: int
  d_reprojection :: "string option"
  d_overlap_band :: bool
  d_back_step :: int
  d_chip_data_path :: string
  d_anno_data_path :: string
  d_num_workers :: nat
  d_retries :: int
  d_ignore_size_limit :: bool
  d_meta_data :: dataset
  d_meta_size :: nat
  d_settings :: settings

text \<open>The class-level limits.\<close>

definition size_limit :: rat where "size_limit = 65"
definition band_limit :: nat where "band_limit = 1024"
definition pixel_limit :: real where "pixel_limit = 32000"

subsection \<open>\<open>_image_generator\<close>\<close>

text \<open>
  The probe for an existing square in a chunked store,
  \<open>zarr.open(store=path, mode="r")[square_name]\<close>: \<open>None\<close> when the square is there, the
  exception otherwise.
\<close>

definition probe :: "'a zarr \<Rightarrow> val \<Rightarrow> error option" where
  "probe z name =
     (case z of
        Missing \<Rightarrow> Some PathNotFoundError
      | Unreadable \<Rightarrow> Some OtherError
      | Store m \<Rightarrow> (case m name of None \<Rightarrow> Some KeyError | Some a \<Rightarrow> None))"

definition valid_exception :: "error \<Rightarrow> bool" where
  "valid_exception e =
     (e = PathNotFoundError \<or> e = GroupNotFoundError \<or> e = ArrayNotFoundError
      \<or> e = KeyError \<or> e = FileNotFoundError)"

text \<open>
  What the existence check of one square decides: go on to build the payload, or
  \<open>continue\<close> with the next record. The branch of the chunked format that finds the
  square in both stores reports and continues; it puts nothing on the result queue.
\<close>

datatype decision = Proceed path path | Continue

definition check_existing :: "downloader \<Rightarrow> string \<Rightarrow> val \<Rightarrow> world \<Rightarrow> decision \<times> world" where
  "check_existing self file_ext square_name w =
     (if d_file_type self \<noteq> ''ZARR'' then
        let chip_data_path = File (d_chip_data_path self) square_name file_ext;
            anno_data_path = File (d_anno_data_path self) square_name file_ext
        in if \<not> d_overwrite self \<and> files w chip_data_path \<noteq> None
              \<and> files w anno_data_path \<noteq> None
           then (Continue, result_put (Some square_name) (report_put (Bare ''INFO'') w))
           else (Proceed chip_data_path anno_data_path, w)
      else
        let chip_data_path = Dir (d_chip_data_path self);
            anno_data_path = Dir (d_anno_data_path self)
        in if \<not> d_overwrite self then
             (case (case probe (chip_zarr w (d_chip_data_path self)) square_name of
                      Some e \<Rightarrow> Some e
                    | None \<Rightarrow> probe (anno_zarr w (d_anno_data_path self)) square_name) of
                None \<Rightarrow> (Continue, report_put (Report INFO (PolygonExists square_name)) w)
              | Some e \<Rightarrow>
                  if valid_exception e
                  then (Proceed chip_data_path anno_data_path,
                        report_put (Report INFO (ValidException e square_name)) w)
                  else (Continue,
                        result_put (Some square_name)
                          (report_put (Report CRITICAL (FailedRead e)) w)))
           else (Proceed chip_data_path anno_data_path, w))"

definition float_positive :: "pyfloat \<Rightarrow> bool" where
  "float_positive c = (case c of Num r \<Rightarrow> 0 < r | PosInf \<Rightarrow> True | _ \<Rightarrow> False)"

text \<open>
  The code of the projection: for \<open>"UTM"\<close> the zone of the point (its coordinates
  reversed) with the prefix of its hemisphere, otherwise the selector itself.
\<close>

definition epsg_code_of :: "downloader \<Rightarrow> service \<Rightarrow> val \<Rightarrow> error + string option" where
  "epsg_code_of self ee point_coords =
     (if d_reprojection self = Some ''UTM'' then
        (case point_coords of
           VTuple cs \<Rightarrow>
             (case utm_zone ee (rev cs) of
                Inl e \<Rightarrow> Inl e
              | Inr zone \<Rightarrow>
                  if length cs < 2 then Inl IndexError
                  else Inr (Some ((if float_positive (cs ! 1) then ''EPSG:326'' else ''EPSG:327'')
                                  @ zone)))
         | _ \<Rightarrow> Inl TypeError)
      else Inr (d_reprojection self))"

text \<open>
  The payload of one square: the reports put on the way and the task, or the exception
  that ended the attempt.
\<close>

definition make_task :: "downloader \<Rightarrow> service \<Rightarrow> tuple_item list \<Rightarrow> path \<Rightarrow> path \<Rightarrow> world
    \<Rightarrow> (error + task) \<times> world" where
  "make_task self ee parsed chip_path anno_path w =
     (case parsed of
        [FCoords geometry_coords, FVal point_coords, FVal point_name, FCoords square_coords,
         FVal square_name, FDate start_date, FDate end_date, FAttrs attributes] \<Rightarrow>
          let start_date2 = (if start_date = None then d_start_date self else start_date);
              end_date2 = (if end_date = None then d_end_date self else end_date);
              w1 = report_put (Report INFO Coordinates)
                     (report_put (Report INFO (CreatingPayload square_name)) w)
          in
          (case lt_image_generator ee
                  [ADate start_date2, ADate end_date2, ACoords square_coords,
                   AInt (d_scale self), ABool (d_overlap_band self), ACoords geometry_coords] of
             Inl e \<Rightarrow> (Inl e, w1)
           | Inr img \<Rightarrow>
               (case epsg_code_of self ee point_coords of
                  Inl e \<Rightarrow> (Inl e, w1)
                | Inr epsg_code \<Rightarrow>
                    let w2 = (case epsg_code of
                                None \<Rightarrow> w1
                              | Some code \<Rightarrow>
                                  report_put (Report INFO (Reprojecting code square_name)) w1)
                    in
                    (case (case epsg_code of
                             None \<Rightarrow> Inr img
                           | Some code \<Rightarrow> reproject ee img code (d_scale self)) of
                       Inl e \<Rightarrow> (Inl e, w2)
                     | Inr img2 \<Rightarrow>
                         (case encode ee img2 of
                            Inl e \<Rightarrow> (Inl e, w2)
                          | Inr encoded \<Rightarrow>
                              (Inr \<lparr>t_payload =
                                      \<lparr>expression = encoded,
                                       fileFormat = (if d_file_type self \<noteq> ''ZARR''
                                                     then d_file_type self
                                                     else ''NUMPY_NDARRAY'')\<rparr>,
                                    t_square_name = square_name, t_point_name = point_name,
                                    t_chip_data_path = chip_path,
                                    t_anno_data_path = anno_path,
                                    t_attributes = attributes\<rparr>, w2)))))
      | _ \<Rightarrow> (Inl ValueError, w))"

definition square_name_of :: "tuple_item list \<Rightarrow> val option" where
  "square_name_of parsed = (case parsed ! 4 of FVal name \<Rightarrow> Some name | _ \<Rightarrow> None)"

text \<open>
  The handler \<open>except Exception as e\<close> of the loop body reports with \<open>square_name\<close> and
  puts it on the result queue. The name is the one bound last: the current record's
  when its parsing succeeded, else the previous record's, and unbound (a \<open>NameError\<close>
  that ends the generator) when no record was parsed yet.
\<close>

definition failed_record :: "error \<Rightarrow> val option \<Rightarrow> world \<Rightarrow> error + world" where
  "failed_record e bound w =
     (case bound of
        None \<Rightarrow> Inl NameError
      | Some square_name \<Rightarrow>
          Inr (result_put (Some square_name)
                 (report_put (Report CRITICAL (FailedPayload e square_name)) w)))"

text \<open>One round of the loop over the catalog, for the record \<open>idx\<close>.\<close>

definition generator_step :: "downloader \<Rightarrow> service \<Rightarrow> string \<Rightarrow> nat \<Rightarrow> val option \<times> world
    \<Rightarrow> error + (val option \<times> world)" where
  "generator_step self ee file_ext idx state =
     (let bound = fst state; w = snd state in
      case parse_meta_data (SQUARE_COLUMNS (d_settings self)) (d_meta_data self) idx
             (d_back_step self) of
        Inl e \<Rightarrow> (case failed_record e bound w of Inl x \<Rightarrow> Inl x | Inr w2 \<Rightarrow> Inr (bound, w2))
      | Inr parsed \<Rightarrow>
          (case square_name_of parsed of
             None \<Rightarrow>
               (case failed_record ValueError bound w of
                  Inl x \<Rightarrow> Inl x | Inr w2 \<Rightarrow> Inr (bound, w2))
           | Some square_name \<Rightarrow>
               (case check_existing self file_ext square_name w of
                  (Continue, w1) \<Rightarrow> Inr (Some square_name, w1)
                | (Proceed chip_path anno_path, w1) \<Rightarrow>
                    (case make_task self ee parsed chip_path anno_path w1 of
                       (Inl e, w2) \<Rightarrow>
                         (case failed_record e (Some square_name) w2 of
                            Inl x \<Rightarrow> Inl x | Inr w3 \<Rightarrow> Inr (Some square_name, w3))
                     | (Inr t, w2) \<Rightarrow> Inr (Some square_name, image_put (Some t) w2)))))"

fun generator_loop :: "downloader \<Rightarrow> service \<Rightarrow> string \<Rightarrow> nat list \<Rightarrow> val option \<times> world
    \<Rightarrow> error + (val option \<times> world)" where
  "generator_loop self ee file_ext [] state = Inr state"
| "generator_loop self ee file_ext (idx # rest) state =
     (case generator_step self ee file_ext idx state of
        Inl e \<Rightarrow> Inl e
      | Inr state2 \<Rightarrow> generator_loop self ee file_ext rest state2)"

text \<open>
  \<open>_image_generator\<close>: the extension of the format is looked up before the loop, the
  loop visits every index once, and one sentinel per worker follows.
\<close>

definition image_generator :: "downloader \<Rightarrow> service \<Rightarrow> world \<Rightarrow> error + world" where
  "image_generator self ee w =
     (case map_of (FILE_EXT_MAP (d_settings self)) (d_file_type self) of
        None \<Rightarrow> Inl KeyError
      | Some file_ext \<Rightarrow>
          (case generator_loop self ee file_ext [0..<d_meta_size self] (None, w) of
             Inl e \<Rightarrow> Inl e
           | Inr state \<Rightarrow>
               Inr (foldl (\<lambda>v i. image_put None v) (snd state) [0..<d_num_workers self])))"

subsection \<open>\<open>_image_consumer\<close>\<close>

text \<open>
  The retry loop. Every failed attempt is reported; the one that uses up the retries
  also reports the error and puts the square's name on the result queue. The sleep of
  three seconds after a failed attempt takes time only and is left out.
\<close>

function fetch_loop :: "downloader \<Rightarrow> service \<Rightarrow> task \<Rightarrow> int \<Rightarrow> world \<Rightarrow> raw option \<times> world" where
  "fetch_loop self ee t attempts w =
     (if attempts < d_retries self then
        let attempts2 = attempts + 1;
            w1 = report_put (Report INFO (RequestingPixels (t_square_name t))) w
        in (case compute_pixels ee t attempts2 of
              Inr arr \<Rightarrow> (Some arr, w1)
            | Inl e \<Rightarrow>
                let w2 = report_put (Report WARNING
                           (FailedAttempt attempts2 (d_retries self) e (t_square_name t))) w1;
                    w3 = (if attempts2 = d_retries self
                          then result_put (Some (t_square_name t))
                                 (report_put (Report ERROR (MaxRetries (t_square_name t))) w2)
                          else report_put (Report INFO (Retrying (t_square_name t))) w2)
                in fetch_loop self ee t attempts2 w3)
      else (None, w))"
  by pat_completeness auto
termination
  by (relation "measure (\<lambda>(self, ee, t, attempts, w). nat (d_retries self - attempts))") auto

declare fetch_loop.simps [simp del]

text \<open>\<open>xarr.to_zarr(store=path, mode="a")\<close>: the store is created when it is not there.\<close>

definition to_zarr :: "'a zarr \<Rightarrow> val \<Rightarrow> 'a \<Rightarrow> error + 'a zarr" where
  "to_zarr z name a =
     (case z of
        Missing \<Rightarrow> Inr (Store ((\<lambda>k. None)(name \<mapsto> a)))
      | Unreadable \<Rightarrow> Inl OtherError
      | Store m \<Rightarrow> Inr (Store (m(name \<mapsto> a))))"

definition store_name :: "path \<Rightarrow> string" where
  "store_name p = (case p of Dir d \<Rightarrow> d | File d name ext \<Rightarrow> d)"

text \<open>
  Writing a file (\<open>write_bytes\<close>, \<open>np.save\<close>): a write that raises leaves a partial
  file, kept here as a file without bytes.
\<close>

definition write_file :: "service \<Rightarrow> path \<Rightarrow> raw \<Rightarrow> world \<Rightarrow> error option \<times> world" where
  "write_file ee p arr w =
     (case write_raises ee p of
        None \<Rightarrow> (None, w\<lparr>files := (files w)(p \<mapsto> arr)\<rparr>)
      | Some e \<Rightarrow> (Some e, w\<lparr>files := (files w)(p \<mapsto> RawBytes [])\<rparr>))"

text \<open>
  The body of the \<open>try\<close> that writes a fetched array: the exception that ended it, if
  any, and the world it leaves.
\<close>

definition write_square :: "downloader \<Rightarrow> service \<Rightarrow> task \<Rightarrow> raw \<Rightarrow> world \<Rightarrow> error option \<times> world" where
  "write_square self ee t arr w =
     (if d_file_type self = ''NPY'' \<or> d_file_type self = ''GEO_TIFF'' then
        write_file ee (t_chip_data_path t) arr w
      else if d_file_type self = ''NUMPY_NDARRAY'' then
        write_file ee (t_chip_data_path t) arr w
      else if d_file_type self = ''ZARR'' then
        (case arr of
           RawBytes b \<Rightarrow> (Some OtherError, w)
         | RawPixels px \<Rightarrow>
             let w1 = report_put (Report INFO (Reshaping (t_square_name t))) w in
             (case zarr_reshape (d_settings self) px (d_pixel_edge_size self) (t_square_name t)
                     (t_point_name t) (Some (t_attributes t)) (loaded_strata_map ee) of
                Inl e \<Rightarrow> (Some e, w1)
              | Inr (xarr_chip, xarr_anno) \<Rightarrow>
                  let w2 = report_put (Report INFO (WritingChip (t_square_name t))) w1;
                      chip_store = store_name (t_chip_data_path t);
                      anno_store = store_name (t_anno_data_path t)
                  in
                  (case to_zarr (chip_zarr w2 chip_store) (t_square_name t) xarr_chip of
                     Inl e \<Rightarrow> (Some e, w2)
                   | Inr z \<Rightarrow>
                       let w3 = w2\<lparr>chip_zarr := (chip_zarr w2)(chip_store := z)\<rparr> in
                       (case xarr_anno of
                          None \<Rightarrow> (None, w3)
                        | Some ann \<Rightarrow>
                            let w4 = report_put (Report INFO (WritingAnno (t_square_name t))) w3
                            in
                            (case to_zarr (anno_zarr w4 anno_store) (t_square_name t) ann of
                               Inl e \<Rightarrow> (Some e, w4)
                             | Inr za \<Rightarrow>
                                 (None, w4\<lparr>anno_zarr := (anno_zarr w4)(anno_store := za)\<rparr>))))))
      else (None, w))"

text \<open>
  Persisting a fetched array: the write, and the handler of its exception, which
  removes the file of the format \<open>NPY\<close>.
\<close>

definition persist :: "downloader \<Rightarrow> service \<Rightarrow> task \<Rightarrow> raw \<Rightarrow> world \<Rightarrow> world" where
  "persist self ee t arr w =
     (let w1 = report_put (Report INFO (AttemptingSave (t_square_name t))) w in
      case write_square self ee t arr w1 of
        (None, w2) \<Rightarrow> w2
      | (Some e, w2) \<Rightarrow>
          let w3 = report_put (Report ERROR (FailedWrite e (t_square_name t))) w2 in
          if d_file_type self = ''NPY'' then
            (case unlink_raises ee (t_chip_data_path t) of
               None \<Rightarrow> w3\<lparr>files := (files w3)(t_chip_data_path t := None)\<rparr>
             | Some e2 \<Rightarrow> report_put (Report ERROR (FailedClean e2 (t_square_name t))) w3)
          else w3)"

text \<open>
  One task of the consumer: the retry loop, the write when an array was fetched, and
  the square's name on the result queue. No branch raises.
\<close>

definition consume_task :: "downloader \<Rightarrow> service \<Rightarrow> task \<Rightarrow> world \<Rightarrow> world" where
  "consume_task self ee t w =
     (case fetch_loop self ee t 0 w of
        (None, w1) \<Rightarrow> result_put (Some (t_square_name t)) w1
      | (Some arr, w1) \<Rightarrow> result_put (Some (t_square_name t)) (persist self ee t arr w1))"

text \<open>
  \<open>_image_consumer\<close> takes tasks until it takes a sentinel and then puts its own
  sentinel on the result queue. On a queue that runs empty without a sentinel it waits
  forever: the result is \<open>None\<close>.
\<close>

fun consumer_loop :: "downloader \<Rightarrow> service \<Rightarrow> task option list \<Rightarrow> world \<Rightarrow> world option" where
  "consumer_loop self ee [] w = None"
| "consumer_loop self ee (None # rest) w = Some (result_put None (w\<lparr>image_queue := rest\<rparr>))"
| "consumer_loop self ee (Some t # rest) w =
     consumer_loop self ee rest (consume_task self ee t (w\<lparr>image_queue := rest\<rparr>))"

definition image_consumer :: "downloader \<Rightarrow> service \<Rightarrow> world \<Rightarrow> world option" where
  "image_consumer self ee w = consumer_loop self ee (image_queue w) w"

subsection \<open>\<open>_watcher\<close> and \<open>start\<close>\<close>

text \<open>
  The loop of the watcher over the result queue: a name counts as completed, a
  sentinel as a terminated worker. The loop ends when the counter reaches the size of
  the catalog; on a queue that runs empty before that it waits forever (\<open>None\<close>).
\<close>

fun watch :: "downloader \<Rightarrow> nat \<Rightarrow> nat \<Rightarrow> val option list \<Rightarrow> report option list
    \<Rightarrow> (nat \<times> nat \<times> val option list \<times> report option list) option" where
  "watch self idx jdx [] reports =
     (if idx < d_meta_size self then None else Some (idx, jdx, [], reports))"
| "watch self idx jdx (result # rest) reports =
     (if idx < d_meta_size self then
        (case result of
           Some name \<Rightarrow>
             watch self (idx + 1) jdx rest
               (reports @ [Some (Report INFO (Completed (idx + 1) (d_meta_size self) name))])
         | None \<Rightarrow>
             watch self idx (jdx + 1) rest
               (reports @ [Some (Report INFO (WorkersTerminated (jdx + 1) (d_num_workers self)))]))
      else Some (idx, jdx, result # rest, reports))"

text \<open>
  The processes in one order: the generator runs to its end, then the consumers one
  after the other, each until its sentinel. A process that ended with an exception or
  waits forever leaves the world as it was then.
\<close>

fun run_consumers :: "downloader \<Rightarrow> service \<Rightarrow> nat \<Rightarrow> world \<Rightarrow> world" where
  "run_consumers self ee 0 w = w"
| "run_consumers self ee (Suc n) w =
     (case image_consumer self ee w of
        None \<Rightarrow> w
      | Some w2 \<Rightarrow> run_consumers self ee n w2)"

definition run_workers :: "downloader \<Rightarrow> service \<Rightarrow> world \<Rightarrow> world" where
  "run_workers self ee w =
     (case image_generator self ee w of
        Inl e \<Rightarrow> w
      | Inr w2 \<Rightarrow> run_consumers self ee (d_num_workers self) w2)"

text \<open>
  \<open>_watcher\<close>: \<open>None\<close> when its loop never ends, else the world after its last reports
  and the sentinel of the report queue, with the two counters.
\<close>

definition watcher :: "downloader \<Rightarrow> service \<Rightarrow> world \<Rightarrow> (nat \<times> nat \<times> world) option" where
  "watcher self ee w =
     (let w1 = run_workers self ee (report_put (Report INFO (Starting (d_meta_size self))) w) in
      case watch self 0 0 (result_queue w1) (report_queue w1) of
        None \<Rightarrow> None
      | Some (idx, jdx, results, reports) \<Rightarrow>
          Some (idx, jdx,
                w1\<lparr>result_queue := results,
                   report_queue := reports @ [Some (Report INFO DownloadCompleted),
                                              Some (Report INFO Finalizing), None]\<rparr>))"

text \<open>Assigning a tuple to \<open>n\<close> targets needs exactly \<open>n\<close> components.\<close>

definition unpack :: "nat \<Rightarrow> 'a list \<Rightarrow> error + 'a list" where
  "unpack n xs = (if length xs = n then Inr xs else Inl ValueError)"

text \<open>The three checks of \<open>start\<close> on the estimate, in the order of the code.\<close>

definition check_limits :: "rat \<Rightarrow> nat \<Rightarrow> nat \<Rightarrow> error + unit" where
  "check_limits test_size test_pixels test_bands =
     (if test_size > size_limit then Inl ValueError
      else if sqrt (real test_pixels) > pixel_limit then Inl ValueError
      else if test_bands > band_limit then Inl ValueError
      else Inr ())"

text \<open>
  \<open>Downloader.start\<close>. The tuple of \<open>parse_meta_data\<close> is assigned to seven targets, and
  the image generator is called with four arguments.
\<close>

definition start :: "downloader \<Rightarrow> service \<Rightarrow> world \<Rightarrow> error + (nat \<times> nat \<times> world) option" where
  "start self ee w =
     (if \<not> d_ignore_size_limit self then
        (case parse_meta_data (SQUARE_COLUMNS (d_settings self)) (d_meta_data self) 0
                (d_back_step self) of
           Inl e \<Rightarrow> Inl e
         | Inr parsed \<Rightarrow>
             (case unpack 7 parsed of
                Inl e \<Rightarrow> Inl e
              | Inr targets \<Rightarrow>
                  let test_area = AItem (targets ! 3);
                      start_date = (if targets ! 4 = FDate None then ADate (d_start_date self)
                                    else AItem (targets ! 4));
                      end_date = (if targets ! 5 = FDate None then ADate (d_end_date self)
                                  else AItem (targets ! 5))
                  in
                  (case lt_image_generator ee
                          [start_date, end_date, test_area, AInt (d_scale self)] of
                     Inl e \<Rightarrow> Inl e
                   | Inr test_image \<Rightarrow>
                       (case estimate ee test_image of
                          Inl e \<Rightarrow> Inl e
                        | Inr (test_size, test_pixels, test_bands) \<Rightarrow>
                            (case check_limits test_size test_pixels test_bands of
                               Inl e \<Rightarrow> Inl e
                             | Inr u \<Rightarrow> Inr (watcher self ee w))))))
      else Inr (watcher self ee w))"

subsection \<open>A catalog of three squares\<close>

text \<open>
  Three records without a year; the chunked stores already hold the second square; two
  workers; a service that answers every request.
\<close>

definition three_squares :: dataset where
  "three_squares =
     [(''geometry_0'', [VVec [Num 1, Num 2], VVec [Num 1, Num 2], VVec [Num 1, Num 2]]),
      (''point_coords'', [VTuple [Num 1, Num 2], VTuple [Num 1, Num 2], VTuple [Num 1, Num 2]]),
      (''point_name'', [VStr ''pt0'', VStr ''pt1'', VStr ''pt2'']),
      (''square_0'', [VVec [Num 0, Num 0], VVec [Num 0, Num 0], VVec [Num 0, Num 0]]),
      (''square_1'', [VVec [Num 9, Num 9], VVec [Num 9, Num 9], VVec [Num 9, Num 9]]),
      (''square_name'', [VStr ''sq0'', VStr ''sq1'', VStr ''sq2'']),
      (''stratum'', [VStr ''forest'', VStr ''water'', VStr ''forest''])]"

definition zarr_downloader :: downloader where
  "zarr_downloader =
     \<lparr>d_start_date = Some (Datetime 2019 6 1), d_end_date = Some (Datetime 2020 9 1),
      d_file_type = ''ZARR'', d_overwrite = False, d_scale = 30, d_pixel_edge_size = 1,
      d_reprojection = None, d_overlap_band = True, d_back_step = 1,
      d_chip_data_path = ''chips'', d_anno_data_path = ''annos'', d_num_workers = 2,
      d_retries = 3, d_ignore_size_limit = True, d_meta_data = three_squares, d_meta_size = 3,
      d_settings = example_settings\<rparr>"

definition good_service :: service where
  "good_service =
     \<lparr>image_gen = (\<lambda>args. Inr ''image''),
      utm_zone = (\<lambda>cs. Inr ''32''),
      reproject = (\<lambda>img code scale. Inr img),
      encode = (\<lambda>img. Inr img),
      estimate = (\<lambda>img. Inr (1, 100, 6)),
      compute_pixels = (\<lambda>t n. Inr (RawPixels one_pixel)),
      write_raises = (\<lambda>p. None),
      unlink_raises = (\<lambda>p. None),
      loaded_strata_map = Some two_strata\<rparr>"

definition stored_chip :: "(pyfloat list) data_array" where
  "stored_chip =
     \<lparr>da_name = VStr ''sq1'', attrs = [], chunks = [(''year'', 1)], x_size = 1, y_size = 1,
      trail = [1], planes = [[[[Num 7]]]]\<rparr>"

definition stored_anno :: "pyfloat data_array" where
  "stored_anno =
     \<lparr>da_name = VStr ''sq1'', attrs = [], chunks = [(''strata'', 1)], x_size = 1, y_size = 1,
      trail = [], planes = [[[Num 0]], [[Num 1]]]\<rparr>"

definition one_present :: world where
  "one_present =
     \<lparr>image_queue = [], result_queue = [], report_queue = [],
      files = (\<lambda>p. None),
      chip_zarr = (\<lambda>p. Missing)(''chips'' := Store ((\<lambda>k. None)(VStr ''sq1'' \<mapsto> stored_chip))),
      anno_zarr = (\<lambda>p. Missing)(''annos'' := Store ((\<lambda>k. None)(VStr ''sq1'' \<mapsto> stored_anno)))\<rparr>"

text \<open>
  The same orchestrator with the size check switched on, and one for the format \<open>NPY\<close>
  with a task of its first square, a service whose every request for pixels fails and
  one whose third request succeeds.
\<close>

definition checked_downloader :: downloader where
  "checked_downloader = zarr_downloader\<lparr>d_ignore_size_limit := False\<rparr>"

definition npy_downloader :: downloader where
  "npy_downloader = zarr_downloader\<lparr>d_file_type := ''NPY''\<rparr>"

definition square_task :: task where
  "square_task =
     \<lparr>t_payload = \<lparr>expression = ''image'', fileFormat = ''NPY''\<rparr>,
      t_square_name = VStr ''sq0'', t_point_name = VStr ''pt0'',
      t_chip_data_path = File ''chips'' (VStr ''sq0'') ''npy'',
      t_anno_data_path = File ''annos'' (VStr ''sq0'') ''npy'',
      t_attributes = [(''stratum'', VStr ''forest'')]\<rparr>"

definition failing_service :: service where
  "failing_service = good_service\<lparr>compute_pixels := (\<lambda>t n. Inl OtherError)\<rparr>"

definition flaky_service :: service where
  "flaky_service =
     good_service\<lparr>compute_pixels :=
       (\<lambda>t n. if n < 3 then Inl OtherError else Inr (RawBytes ''abc''))\<rparr>"

text \<open>
  The orchestrator for \<open>NPY\<close> with a retry count of zero; a task of the first square as
  the generator makes it for the chunked format; a service whose third request for
  pixels returns a one-pixel array.
\<close>

definition no_retry_downloader :: downloader where
  "no_retry_downloader = npy_downloader\<lparr>d_retries := 0\<rparr>"

definition store_task :: task where
  "store_task =
     \<lparr>t_payload = \<lparr>expression = ''image'', fileFormat = ''NUMPY_NDARRAY''\<rparr>,
      t_square_name = VStr ''sq0'', t_point_name = VStr ''pt0'',
      t_chip_data_path = Dir ''chips'', t_anno_data_path = Dir ''annos'',
      t_attributes = [(''stratum'', VStr ''forest'')]\<rparr>"

definition flaky_pixel_service :: service where
  "flaky_pixel_service =
     good_service\<lparr>compute_pixels :=
       (\<lambda>t n. if n < 3 then Inl OtherError else Inr (RawPixels one_pixel))\<rparr>"

section \<open>Slices and padding\<close>

lemma py_slice_pad_list:
  "0 < hi \<Longrightarrow> py_slice (int lo) (- int hi) (pad_list lo hi v xs) = xs"
  by (simp add: py_slice_def pad_list_def slice_len_def slice_bound_def)

lemma map_py_slice_pad_list:
  "0 < hi \<Longrightarrow> map (py_slice (int lo) (- int hi)) (map (pad_list lo hi v) p) = p"
  by (simp add: py_slice_pad_list map_idI)

lemma slice_len_pad:
  "0 < hi \<Longrightarrow> slice_len (int lo) (- int hi) (lo + n + hi) = n"
  by (simp add: slice_len_def slice_bound_def)

text \<open>
  Padding a square array to a strictly larger edge and cropping back to the old edge
  gives the array back: the crop computes the offsets the padding used.
\<close>

lemma clip_chip_pad_xy_xarray:
  assumes sx: "x_size a = n" and sy: "y_size a = n" and lt: "int n < e"
  shows "\<exists>b. pad_xy_xarray fill a e = Inr b \<and> x_size b = nat e \<and> y_size b = nat e
           \<and> clip_chip (int n) b = a"
proof -
  define d where "d = e - int n"
  define lo where "lo = nat (d div 2)"
  define hi where "hi = nat (d - d div 2)"
  have dpos: "0 < d" using lt by (simp add: d_def)
  have lo_int: "int lo = d div 2" using dpos by (simp add: lo_def)
  have hi_int: "int hi = d - d div 2" using dpos by (simp add: hi_def)
  have hi_pos: "0 < hi" using dpos by (simp add: hi_def)
  have sum: "lo + n + hi = nat e"
    using lo_int hi_int by (simp add: d_def)
  define b where
    "b = a\<lparr>x_size := lo + n + hi, y_size := lo + n + hi,
           planes := map (\<lambda>p. pad_list lo hi (replicate (lo + n + hi) fill)
                                 (map (pad_list lo hi fill) p)) (planes a)\<rparr>"
  have nonneg: "\<not> (d div 2 < 0 \<or> d - d div 2 < 0)"
    using dpos by linarith
  have padb: "pad_xy_xarray fill a e = Inr b"
    using nonneg
    by (simp add: pad_xy_xarray_def pad_def sx sy Let_def b_def lo_def hi_def d_def)
  have diff: "int (lo + n + hi) - int n = d"
    using sum lt by (simp add: d_def)
  have plane: "map (py_slice (int lo) (- int hi))
                 (py_slice (int lo) (- int hi)
                    (pad_list lo hi (replicate (lo + n + hi) fill)
                       (map (pad_list lo hi fill) p))) = p" for p
    using hi_pos map_py_slice_pad_list [of hi lo fill p] by (simp add: py_slice_pad_list)
  have sel: "sel_xy (int lo) (- int hi) (int lo) (- int hi) b = a"
    using hi_pos
    by (simp add: sel_xy_def b_def slice_len_pad sx sy plane map_idI)
  have "clip_chip (int n) b = sel_xy (int lo) (- int hi) (int lo) (- int hi) b"
    using diff
    by (simp add: clip_chip_def Let_def b_def lo_int hi_int del: of_nat_add)
  with sel have "clip_chip (int n) b = a" by simp
  moreover have "x_size b = nat e" "y_size b = nat e"
    using sum by (simp_all add: b_def)
  ultimately show ?thesis using padb by blast
qed

section \<open>The centered crop\<close>

lemma clip_chip_equal_x:
  assumes "int (x_size a) = cs"
  shows "x_size (clip_chip cs a) = 0" and "planes (clip_chip cs a) = map (\<lambda>p. []) (planes a)"
  using assms
  by (simp_all add: clip_chip_def sel_xy_def Let_def slice_len_def slice_bound_def py_slice_def)

lemma clip_chip_equal_y:
  assumes "int (y_size a) = cs"
  shows "y_size (clip_chip cs a) = 0"
    and "list_all (list_all (\<lambda>r. r = [])) (planes (clip_chip cs a))"
  using assms
  by (simp_all add: clip_chip_def sel_xy_def Let_def slice_len_def slice_bound_def py_slice_def
      list_all_iff)

lemma clip_chip_greater_x:
  assumes "0 \<le> cs" and "cs < int (x_size a)"
  shows "x_size (clip_chip cs a) = nat cs"
  using assms
  by (simp add: clip_chip_def sel_xy_def Let_def slice_len_def slice_bound_def) linarith

lemma clip_chip_greater_y:
  assumes "0 \<le> cs" and "cs < int (y_size a)"
  shows "y_size (clip_chip cs a) = nat cs"
  using assms
  by (simp add: clip_chip_def sel_xy_def Let_def slice_len_def slice_bound_def) linarith

text \<open>
  C6. Padding an array of spatial extents (x=8, y=8) to edge size 10 puts one row or
  column of the fill value on each side (\<open>x_start = 1\<close>, \<open>x_end = 1\<close>, and the same for
  \<open>y\<close>), and the centered crop back to size 8 returns the array that was padded: the
  same content at the same offsets.
\<close>

theorem pad_10_clip_8_roundtrip:
  assumes "x_size a = 8" and "y_size a = 8"
  shows "pad_xy_xarray fill a 10 =
           Inr (a\<lparr>x_size := 10, y_size := 10,
                   planes := map (\<lambda>p. pad_list 1 1 (replicate 10 fill) (map (pad_list 1 1 fill) p))
                                 (planes a)\<rparr>)
         \<and> clip_chip 8
              (a\<lparr>x_size := 10, y_size := 10,
                  planes := map (\<lambda>p. pad_list 1 1 (replicate 10 fill) (map (pad_list 1 1 fill) p))
                                (planes a)\<rparr>) = a"
proof -
  have p: "pad_xy_xarray fill a 10 =
           Inr (a\<lparr>x_size := 10, y_size := 10,
                   planes := map (\<lambda>p. pad_list 1 1 (replicate 10 fill) (map (pad_list 1 1 fill) p))
                                 (planes a)\<rparr>)"
    using assms by (simp add: pad_xy_xarray_def pad_def Let_def)
  from clip_chip_pad_xy_xarray [of a 8 10 fill] assms
  obtain b where "pad_xy_xarray fill a 10 = Inr b" and "clip_chip (int 8) b = a"
    by auto
  with p show ?thesis by simp
qed

theorem pad_10_clip_8_roundtrip_witness:
  "x_size chip_8x8 = 8 \<and> y_size chip_8x8 = 8
   \<and> pad_xy_xarray (Num (- 9999)) chip_8x8 10 =
         Inr (chip_8x8\<lparr>x_size := 10, y_size := 10,
                planes := map (\<lambda>p. pad_list 1 1 (replicate 10 (Num (- 9999)))
                                      (map (pad_list 1 1 (Num (- 9999))) p))
                              (planes chip_8x8)\<rparr>)
   \<and> clip_chip 8
         (chip_8x8\<lparr>x_size := 10, y_size := 10,
            planes := map (\<lambda>p. pad_list 1 1 (replicate 10 (Num (- 9999)))
                                  (map (pad_list 1 1 (Num (- 9999))) p))
                          (planes chip_8x8)\<rparr>) = chip_8x8"
proof -
  have h: "x_size chip_8x8 = 8" "y_size chip_8x8 = 8" by (simp_all add: chip_8x8_def)
  show ?thesis
    using h pad_10_clip_8_roundtrip [OF h, of "Num (- 9999)"] by simp
qed

section \<open>Item access\<close>

lemma getitem_InrD:
  assumes "getitem self fs idx = Inr items"
  obtains paths store img sliced rest where
    "sample_stores fs (sample_path self) = Some paths" and "idx < length paths"
    and "chip_stores fs (chip_data_path self) = Some store"
    and "store (s_square_name (paths ! idx)) = Some img"
    and "(if base_year self \<noteq> None \<and> back_step self \<noteq> None
          then slice_year self img (s_year (paths ! idx)) else Inr img) = Inr sliced"
    and "items = Chip (as_tensor (clip_if_larger self sliced)) # rest"
  using assms
  unfolding getitem_def zarr_loader_def Let_def
  by (auto split: option.splits sum.splits if_splits)

lemma slice_year_sizes:
  assumes "slice_year self img year = Inr sliced"
  shows "x_size sliced = x_size img" and "y_size sliced = y_size img"
  using assms
  by (auto simp: slice_year_def sel_lead_def Let_def split: option.splits)

lemma py_slice_window:
  assumes "0 \<le> a" and "a \<le> b" and "b \<le> int (length xs)"
  shows "py_slice a b xs = take (nat (b - a)) (drop (nat a) xs)"
proof -
  have "slice_bound a (length xs) = nat a" "slice_bound b (length xs) = nat b"
    using assms by (auto simp: slice_bound_def)
  moreover have "nat b - nat a = nat (b - a)"
    using assms by (simp add: nat_diff_distrib)
  ultimately show ?thesis by (simp add: py_slice_def slice_len_def)
qed

text \<open>
  C10. When one spatial extent of the loaded chip equals the dataset's chip size and the
  other is strictly greater, \<open>__getitem__\<close> runs the centered crop, the crop selects the
  slice \<open>(0, -0)\<close> on the equal axis, and the returned chip tensor has extent zero on that
  axis (all its planes, or all their rows, are empty) while the greater axis is cut to
  the chip size.
\<close>

theorem getitem_straddling_crop:
  assumes samples: "sample_stores fs (sample_path self) = Some paths"
    and idx: "idx < length paths"
    and chips: "chip_stores fs (chip_data_path self) = Some store"
    and img: "store (s_square_name (paths ! idx)) = Some img"
    and ret: "getitem self fs idx = Inr items"
    and straddle: "int (x_size img) = chip_size self \<and> chip_size self < int (y_size img)
                   \<or> int (y_size img) = chip_size self \<and> chip_size self < int (x_size img)"
  shows "\<exists>chip rest. items = Chip chip # rest
           \<and> (int (x_size img) = chip_size self \<longrightarrow>
                  shape chip ! 1 = 0 \<and> shape chip ! 2 = nat (chip_size self)
                  \<and> list_all (\<lambda>p. p = []) (cells chip))
           \<and> (int (y_size img) = chip_size self \<longrightarrow>
                  shape chip ! 2 = 0 \<and> shape chip ! 1 = nat (chip_size self)
                  \<and> list_all (list_all (\<lambda>r. r = [])) (cells chip))"
proof -
  from ret obtain paths' store' img' sliced rest where
    g: "sample_stores fs (sample_path self) = Some paths'"
       "chip_stores fs (chip_data_path self) = Some store'"
       "store' (s_square_name (paths' ! idx)) = Some img'"
       "(if base_year self \<noteq> None \<and> back_step self \<noteq> None
          then slice_year self img' (s_year (paths' ! idx)) else Inr img') = Inr sliced"
       "items = Chip (as_tensor (clip_if_larger self sliced)) # rest"
    by (rule getitem_InrD)
  from g samples chips img have same: "img' = img" by simp
  have sz: "x_size sliced = x_size img" "y_size sliced = y_size img"
    using g(4) same slice_year_sizes [of self img _ sliced]
    by (auto split: if_splits)
  have pos: "0 \<le> chip_size self" using straddle by auto
  have larger: "clip_if_larger self sliced = clip_chip (chip_size self) sliced"
    using straddle sz by (auto simp: clip_if_larger_def)
  let ?c = "clip_chip (chip_size self) sliced"
  have x_eq: "x_size ?c = 0 \<and> y_size ?c = nat (chip_size self)
                \<and> list_all (\<lambda>p. p = []) (planes ?c)"
    if "int (x_size img) = chip_size self"
  proof -
    from that straddle have "chip_size self < int (y_size sliced)" using sz by auto
    with pos have "y_size ?c = nat (chip_size self)" by (rule clip_chip_greater_y)
    moreover from that sz have e: "int (x_size sliced) = chip_size self" by simp
    from e have "x_size ?c = 0" by (rule clip_chip_equal_x)
    moreover from e have "planes ?c = map (\<lambda>p. []) (planes sliced)" by (rule clip_chip_equal_x)
    then have "list_all (\<lambda>p. p = []) (planes ?c)" by (simp add: list_all_iff)
    ultimately show ?thesis by simp
  qed
  have y_eq: "y_size ?c = 0 \<and> x_size ?c = nat (chip_size self)
                \<and> list_all (list_all (\<lambda>r. r = [])) (planes ?c)"
    if "int (y_size img) = chip_size self"
  proof -
    from that straddle have "chip_size self < int (x_size sliced)" using sz by auto
    with pos have "x_size ?c = nat (chip_size self)" by (rule clip_chip_greater_x)
    moreover from that sz have e: "int (y_size sliced) = chip_size self" by simp
    from e have "y_size ?c = 0" by (rule clip_chip_equal_y)
    moreover from e have "list_all (list_all (\<lambda>r. r = [])) (planes ?c)"
      by (rule clip_chip_equal_y)
    ultimately show ?thesis by simp
  qed
  show ?thesis
    using g(5) larger x_eq y_eq by (simp add: as_tensor_def)
qed

theorem getitem_straddling_crop_witness:
  "getitem straddling_dataset straddling_stores 0 =
     Inr [Chip \<lparr>shape = [1, 2, 0, 1], cells = [[[], []]]\<rparr>]
   \<and> int (y_size straddling_chip) = chip_size straddling_dataset
   \<and> chip_size straddling_dataset < int (x_size straddling_chip)
   \<and> (\<exists>chip rest. [Chip \<lparr>shape = [1, 2, 0, 1], cells = [[[], []]]\<rparr>] = Chip chip # rest
         \<and> shape chip ! 2 = 0 \<and> shape chip ! 1 = nat (chip_size straddling_dataset)
         \<and> list_all (list_all (\<lambda>r. r = [])) (cells chip))"
proof -
  have ret: "getitem straddling_dataset straddling_stores 0 =
     Inr [Chip \<lparr>shape = [1, 2, 0, 1], cells = [[[], []]]\<rparr>]"
    by (simp add: getitem_def straddling_dataset_def straddling_stores_def straddling_chip_def
      ChipsDataset_def zarr_loader_def clip_if_larger_def clip_chip_def sel_xy_def as_tensor_def
      slice_len_def slice_bound_def py_slice_def Let_def truthy_def)
  have samples: "sample_stores straddling_stores (sample_path straddling_dataset)
                 = Some [\<lparr>s_square_name = ''sq'', s_year = 2020\<rparr>]"
    by (simp add: straddling_dataset_def straddling_stores_def ChipsDataset_def)
  have idx: "0 < length [\<lparr>s_square_name = ''sq'', s_year = 2020\<rparr>]" by simp
  have chips: "chip_stores straddling_stores (chip_data_path straddling_dataset)
               = Some [''sq'' \<mapsto> straddling_chip]"
    by (simp add: straddling_dataset_def straddling_stores_def ChipsDataset_def)
  have img: "[''sq'' \<mapsto> straddling_chip] (s_square_name ([\<lparr>s_square_name = ''sq'', s_year = 2020\<rparr>] ! 0))
             = Some straddling_chip"
    by simp
  have sz: "int (y_size straddling_chip) = chip_size straddling_dataset"
           "chip_size straddling_dataset < int (x_size straddling_chip)"
    by (simp_all add: straddling_dataset_def straddling_chip_def ChipsDataset_def)
  then have straddle:
    "int (x_size straddling_chip) = chip_size straddling_dataset
       \<and> chip_size straddling_dataset < int (y_size straddling_chip)
     \<or> int (y_size straddling_chip) = chip_size straddling_dataset
       \<and> chip_size straddling_dataset < int (x_size straddling_chip)"
    by simp
  show ?thesis
    using getitem_straddling_crop [OF samples idx chips img ret straddle] ret sz
    by simp
qed

text \<open>
  What \<open>__getitem__\<close> returns does not depend on the normalization: a dataset returns
  the list that the same dataset without normalization returns.
\<close>

lemma slice_year_normalize: "slice_year (self\<lparr>normalize := v\<rparr>) img y = slice_year self img y"
  by (simp add: slice_year_def split: option.splits)

lemma clip_if_larger_normalize:
  "clip_if_larger (self\<lparr>normalize := v\<rparr>) a = clip_if_larger self a"
  by (simp add: clip_if_larger_def)

lemma get_strata_normalize:
  "get_strata (self\<lparr>normalize := v\<rparr>) fs p n = get_strata self fs p n"
  by (simp add: get_strata_def clip_if_larger_normalize split: sum.splits)

lemma getitem_without_normalization:
  assumes "getitem self fs idx = Inr items"
  shows "getitem (self\<lparr>normalize := None\<rparr>) fs idx = Inr items"
proof -
  from assms obtain paths where p: "sample_stores fs (sample_path self) = Some paths"
    and i: "\<not> length paths \<le> idx"
    by (auto simp: getitem_def split: option.splits if_splits)
  let ?name = "s_square_name (paths ! idx)"
  from assms p i obtain img where
    l: "zarr_loader (chip_stores fs) (chip_data_path self) ?name = Inr img"
    by (auto simp: getitem_def Let_def split: sum.splits)
  let ?sl = "if base_year self \<noteq> None \<and> back_step self \<noteq> None
             then slice_year self img (s_year (paths ! idx)) else Inr img"
  from assms p i l obtain sliced where s: "?sl = Inr sliced"
    by (cases ?sl) (simp_all add: getitem_def Let_def)
  let ?chip = "as_tensor (clip_if_larger self sliced)"
  let ?rest = "case (case anno_data_path self of
                       None \<Rightarrow> Inr [Chip ?chip]
                     | Some anno_path \<Rightarrow>
                         (case get_strata self fs anno_path ?name of
                            Inl e \<Rightarrow> Inl e
                          | Inr strata \<Rightarrow> Inr ([Chip ?chip] @ [Annotation strata]))) of
                 Inl e \<Rightarrow> Inl e
               | Inr item2 \<Rightarrow> Inr (if include_names self then item2 @ [Name ?name] else item2)"
  have g: "getitem self fs idx =
             (case (case normalize self of None \<Rightarrow> Inr ?chip | Some n \<Rightarrow> forward n ?chip) of
                Inl e \<Rightarrow> Inl e | Inr normalized \<Rightarrow> ?rest)"
  proof (cases "base_year self \<noteq> None \<and> back_step self \<noteq> None")
    case True
    with s have "slice_year self img (s_year (paths ! idx)) = Inr sliced" by simp
    with True p i l show ?thesis by (simp add: getitem_def Let_def)
  next
    case False
    with s have "sliced = img" by (auto split: if_splits)
    with False p i l show ?thesis by (auto simp: getitem_def Let_def)
  qed
  have "getitem (self\<lparr>normalize := None\<rparr>) fs idx = ?rest"
  proof (cases "base_year self \<noteq> None \<and> back_step self \<noteq> None")
    case True
    with s have "slice_year self img (s_year (paths ! idx)) = Inr sliced" by simp
    with True p i l show ?thesis
      by (simp add: getitem_def Let_def slice_year_normalize clip_if_larger_normalize
          get_strata_normalize cong: option.case_cong sum.case_cong)
  next
    case False
    with s have "sliced = img" by (auto split: if_splits)
    with False p i l show ?thesis
      by (auto simp: getitem_def Let_def slice_year_normalize clip_if_larger_normalize
          get_strata_normalize cong: option.case_cong sum.case_cong)
  qed
  moreover from assms g have "?rest = Inr items"
    by (cases "case normalize self of None \<Rightarrow> Inr ?chip | Some n \<Rightarrow> forward n ?chip") simp_all
  ultimately show ?thesis by simp
qed

text \<open>
  C3, at a dataset configured with mean 1 and standard deviation 2 over a chip with the
  single value 3: the list that \<open>__getitem__\<close> returns is chip, annotation, name in
  this order, but its chip still holds 3, whereas the normalization of that tensor
  holds (3 - 1) / 2 = 1.
\<close>

theorem getitem_returns_unnormalized_chip:
  "getitem normalized_dataset normalized_stores 0 =
     Inr [Chip \<lparr>shape = [1, 1, 1, 1], cells = [[[[Num 3]]]]\<rparr>,
          Annotation \<lparr>shape = [1, 1, 1], cells = [[[Num 1]]]\<rparr>, Name ''sq'']
   \<and> normalize normalized_dataset = Some \<lparr>means = [Num 1], stds = [Num 2]\<rparr>
   \<and> forward \<lparr>means = [Num 1], stds = [Num 2]\<rparr> \<lparr>shape = [1, 1, 1, 1], cells = [[[[Num 3]]]]\<rparr>
       = Inr \<lparr>shape = [1, 1, 1, 1], cells = [[[[Num 1]]]]\<rparr>"
  by (simp add: getitem_def normalized_dataset_def normalized_stores_def unit_chip_def unit_anno_def
      ChipsDataset_def zarr_loader_def clip_if_larger_def as_tensor_def get_strata_def
      forward_def broadcast_last_def broadcast_cell_def Let_def truthy_def)

text \<open>
  C4 fails as stated: with base year 2000 and a back-step of 1, the record of the year
  2000 asks for the window [-1, 0]; the negative start counts from the end of the four
  stored years, the slice is empty, and the chip returned has no year at all instead of
  two.
\<close>

theorem getitem_year_window_counterexample:
  "base_year four_year_dataset = Some 2000 \<and> back_step four_year_dataset = Some 1
   \<and> getitem four_year_dataset four_year_stores 1 =
       Inr [Chip \<lparr>shape = [0, 1, 1, 1], cells = []\<rparr>]"
  by (simp add: getitem_def four_year_dataset_def four_year_stores_def four_year_chip_def
      ChipsDataset_def zarr_loader_def clip_if_larger_def as_tensor_def slice_year_def sel_lead_def
      slice_len_def slice_bound_def py_slice_def Let_def truthy_def)

text \<open>
  C4 as amended. When base year and back-step are both configured, the back-step is not
  negative and the window [year - base_year - back_step, year - base_year] lies inside
  the stored years, the chip returned holds exactly back_step + 1 years: the stored
  planes at those offsets, cropped. When either setting is absent, it holds every
  stored year.
\<close>

theorem getitem_year_window:
  assumes samples: "sample_stores fs (sample_path self) = Some paths"
    and idx: "idx < length paths"
    and chips: "chip_stores fs (chip_data_path self) = Some store"
    and img: "store (s_square_name (paths ! idx)) = Some img"
    and ret: "getitem self fs idx = Inr items"
  shows "\<exists>chip rest. items = Chip chip # rest
           \<and> (\<forall>base bstep.
                 base_year self = Some base \<and> back_step self = Some bstep \<and> 0 \<le> bstep
                 \<and> 0 \<le> s_year (paths ! idx) - base - bstep
                 \<and> s_year (paths ! idx) - base < int (length (planes img)) \<longrightarrow>
                 shape chip ! 0 = nat bstep + 1
                 \<and> cells chip =
                     planes (clip_if_larger self
                       (img\<lparr>planes := take (nat bstep + 1)
                                        (drop (nat (s_year (paths ! idx) - base - bstep))
                                           (planes img))\<rparr>)))
           \<and> (base_year self = None \<or> back_step self = None \<longrightarrow>
                 shape chip ! 0 = length (planes img)
                 \<and> cells chip = planes (clip_if_larger self img))"
proof -
  from ret obtain paths' store' img' sliced rest where
    g: "sample_stores fs (sample_path self) = Some paths'"
       "chip_stores fs (chip_data_path self) = Some store'"
       "store' (s_square_name (paths' ! idx)) = Some img'"
       "(if base_year self \<noteq> None \<and> back_step self \<noteq> None
          then slice_year self img' (s_year (paths' ! idx)) else Inr img') = Inr sliced"
       "items = Chip (as_tensor (clip_if_larger self sliced)) # rest"
    by (rule getitem_InrD)
  from g samples chips img have same: "img' = img" "paths' = paths" by simp_all
  let ?year = "s_year (paths ! idx)"
  have len: "length (planes (clip_if_larger self a)) = length (planes a)" for a :: "(pyfloat list) data_array"
    by (simp add: clip_if_larger_def clip_chip_def sel_xy_def Let_def)
  have absent: "sliced = img" if "base_year self = None \<or> back_step self = None"
    using that g(4) same by auto
  have window: "sliced = img\<lparr>planes := take (nat bstep + 1) (drop (nat (?year - base - bstep)) (planes img))\<rparr>"
    if "base_year self = Some base" "back_step self = Some bstep" "0 \<le> bstep"
       "0 \<le> ?year - base - bstep" "?year - base < int (length (planes img))"
    for base bstep
  proof -
    have "py_slice (?year - base - bstep) (?year - base + 1) (planes img)
          = take (nat (?year - base + 1 - (?year - base - bstep)))
              (drop (nat (?year - base - bstep)) (planes img))"
      using that by (intro py_slice_window) auto
    moreover have "nat (?year - base + 1 - (?year - base - bstep)) = nat bstep + 1"
      using that by auto
    ultimately show ?thesis
      using that g(4) same by (simp add: slice_year_def sel_lead_def Let_def)
  qed
  have wlen: "length (take (nat bstep + 1) (drop (nat (?year - base - bstep)) (planes img))) = nat bstep + 1"
    if "0 \<le> bstep" "0 \<le> ?year - base - bstep" "?year - base < int (length (planes img))"
    for base bstep
    using that by auto
  show ?thesis
    using g(5) absent window wlen
    by (auto simp: as_tensor_def len simp del: length_take length_drop)
qed

theorem getitem_year_window_witness:
  "getitem four_year_dataset four_year_stores 0 =
     Inr [Chip \<lparr>shape = [2, 1, 1, 1], cells = [[[[Num 11]]], [[[Num 12]]]]\<rparr>]
   \<and> base_year four_year_dataset = Some 2000 \<and> back_step four_year_dataset = Some 1
   \<and> (\<exists>chip rest. [Chip \<lparr>shape = [2, 1, 1, 1], cells = [[[[Num 11]]], [[[Num 12]]]]\<rparr>]
                      = Chip chip # rest
         \<and> shape chip ! 0 = 2
         \<and> cells chip = planes (clip_if_larger four_year_dataset
               (four_year_chip\<lparr>planes := take 2 (drop 1 (planes four_year_chip))\<rparr>)))"
proof -
  have ret: "getitem four_year_dataset four_year_stores 0 =
     Inr [Chip \<lparr>shape = [2, 1, 1, 1], cells = [[[[Num 11]]], [[[Num 12]]]]\<rparr>]"
    by (simp add: getitem_def four_year_dataset_def four_year_stores_def four_year_chip_def
      ChipsDataset_def zarr_loader_def clip_if_larger_def as_tensor_def slice_year_def sel_lead_def
      slice_len_def slice_bound_def py_slice_def Let_def truthy_def)
  have samples: "sample_stores four_year_stores (sample_path four_year_dataset)
                 = Some [\<lparr>s_square_name = ''sq'', s_year = 2002\<rparr>,
                         \<lparr>s_square_name = ''sq'', s_year = 2000\<rparr>]"
    by (simp add: four_year_dataset_def four_year_stores_def ChipsDataset_def)
  have idx: "0 < length [\<lparr>s_square_name = ''sq'', s_year = 2002\<rparr>,
                         \<lparr>s_square_name = ''sq'', s_year = 2000\<rparr>]"
    by simp
  have chips: "chip_stores four_year_stores (chip_data_path four_year_dataset)
               = Some [''sq'' \<mapsto> four_year_chip]"
    by (simp add: four_year_dataset_def four_year_stores_def ChipsDataset_def)
  have img: "[''sq'' \<mapsto> four_year_chip]
               (s_square_name ([\<lparr>s_square_name = ''sq'', s_year = 2002\<rparr>,
                                \<lparr>s_square_name = ''sq'', s_year = 2000\<rparr>] ! 0))
             = Some four_year_chip"
    by simp
  have cfg: "base_year four_year_dataset = Some 2000" "back_step four_year_dataset = Some 1"
    by (simp_all add: four_year_dataset_def ChipsDataset_def)
  have len: "length (planes four_year_chip) = 4" by (simp add: four_year_chip_def)
  show ?thesis
    using getitem_year_window [OF samples idx chips img ret] ret cfg len
    by (auto simp: numeral_2_eq_2)
qed

section \<open>Coordinate names\<close>

lemma str_int_digit:
  "str_int 1 = ''1''" "str_int 2 = ''2''" "str_int 3 = ''3''" "str_int 4 = ''4''"
  by (simp_all add: str_int_def str_nat.simps)

lemma collect_map_Inr: "map f xs = map Inr ys \<Longrightarrow> collect f xs = Inr ys"
  by (induction xs arbitrary: ys) auto

lemma generate_coords_name_list_of_one_pair:
  "generate_coords_name str_int (PList [pair 1 2]) = Inl IndexError"
  by (simp add: generate_coords_name_def pair_def)

lemma generate_coords_name_flat_pair:
  "generate_coords_name str_int (pair 1 2) = Inr ''x1y2''"
  by (simp add: generate_coords_name_def pair_def str_int_digit)

text \<open>
  C7 fails as stated: a list of exactly two pairs has more than one pair, yet its
  length is not greater than 2, so nothing is dropped and the two pairs themselves are
  formatted as the \<open>x\<close> and the \<open>y\<close> field.
\<close>

theorem generate_coords_name_two_pairs_counterexample:
  "generate_coords_name str_int (PList [pair 1 2, pair 3 4]) = Inr ''x(1, 2)y(3, 4)''
   \<and> generate_coords_name str_int (PList [pair 1 2, pair 3 4]) \<noteq> Inr ''x1y2''"
  by (simp add: generate_coords_name_def pair_def unpack_pair_def join_def segment_def
      str_int_digit)

text \<open>
  C7 as amended. For a sequence of more than two pairs, the name is made of every pair
  but the last, each as \<open>x{x}y{y}\<close>, joined by underscores; a sequence of exactly two
  elements (a point given as the flat pair \<open>(x, y)\<close>) is formatted directly as
  \<open>x{coords[0]}y{coords[1]}\<close>, and nothing is dropped.
\<close>

theorem generate_coords_name_polygon:
  "(\<forall>cs ps. elements coords = Inr cs \<and> 2 < length cs
        \<and> map unpack_pair (butlast cs) = map Inr ps \<longrightarrow>
      generate_coords_name fmt coords = Inr (join ''_'' (map (segment fmt) ps)))
   \<and> (\<forall>x y. elements coords = Inr [x, y] \<longrightarrow>
      generate_coords_name fmt coords = Inr (''x'' @ py_str fmt x @ ''y'' @ py_str fmt y))"
  by (auto simp: generate_coords_name_def collect_map_Inr)

theorem generate_coords_name_polygon_witness:
  "elements (PList [pair 1 2, pair 3 4, pair 1 2]) = Inr [pair 1 2, pair 3 4, pair 1 2]
   \<and> 2 < length [pair 1 2, pair 3 4, pair 1 2]
   \<and> map unpack_pair (butlast [pair 1 2, pair 3 4, pair 1 2])
       = map Inr [(Atom 1, Atom 2), (Atom 3, Atom 4)]
   \<and> generate_coords_name str_int (PList [pair 1 2, pair 3 4, pair 1 2]) = Inr ''x1y2_x3y4''"
proof -
  have h: "elements (PList [pair 1 2, pair 3 4, pair 1 2]) = Inr [pair 1 2, pair 3 4, pair 1 2]
           \<and> 2 < length [pair 1 2, pair 3 4, pair 1 2]
           \<and> map unpack_pair (butlast [pair 1 2, pair 3 4, pair 1 2])
               = map Inr [(Atom 1, Atom 2), (Atom 3, Atom 4)]"
    by (simp add: pair_def unpack_pair_def)
  have "join ''_'' (map (segment str_int) [(Atom 1, Atom 2), (Atom 3, Atom 4)]) = ''x1y2_x3y4''"
    by (simp add: join_def segment_def str_int_digit)
  with h generate_coords_name_polygon [of "PList [pair 1 2, pair 3 4, pair 1 2]" str_int]
  show ?thesis by metis
qed

section \<open>Parsing a metadata record\<close>

lemma float_eq_self: "float_eq c c \<longleftrightarrow> c \<noteq> NaN"
  by (simp add: float_eq_def)

lemma parse_meta_data_without_year:
  "parse_meta_data [''square_0'', ''square_1''] catalog_without_year 1 3 =
     Inr [FCoords [[Num 1, Num 2], [Num 3, Num 4]], FVal (VTuple [Num 1, Num 2]),
          FVal (VStr ''x1y2''), FCoords [[Num 0, Num 0], [Num 9, Num 9]], FVal (VStr ''sq1''),
          FDate None, FDate None, FAttrs [(''stratum'', VStr ''water'')]]"
  by (simp add: parse_meta_data_def catalog_without_year_def catalog_with_year_def rows_at_def
      isel_def item_at_def row_of_def record_dates_def record_attributes_def float_eq_def Let_def)

text \<open>
  C8. Whenever \<open>parse_meta_data\<close> returns, the geometry it returns is the list of the
  geometry columns' pairs at the index without the pairs that have a not-a-number
  component (the test is \<open>c == c\<close> on every component, nothing else is dropped); with a
  \<open>year\<close> variable in the catalog the start date is June 1 of year - back_step and the
  end date is September 1 of year, without one both dates are absent.
\<close>

theorem parse_meta_data_filter_and_dates:
  assumes "parse_meta_data square_columns meta_data index bstep = Inr r"
  shows "\<exists>geometry_values point_coords point_name square_coords square_name start_date end_date
            attributes.
           rows_at meta_data (filter (contains ''geometry_'') (map fst meta_data)) index
             = Inr geometry_values
           \<and> r = [FCoords (filter (list_all (\<lambda>c. c \<noteq> NaN)) geometry_values),
                  FVal point_coords, FVal point_name, FCoords square_coords, FVal square_name,
                  FDate start_date, FDate end_date, FAttrs attributes]
           \<and> (''year'' \<in> fst ` set meta_data \<longrightarrow>
                (\<exists>y. item_at meta_data ''year'' index = Inr (VInt y)
                   \<and> start_date = Some (Datetime (y - bstep) 6 1)
                   \<and> end_date = Some (Datetime y 9 1)))
           \<and> (''year'' \<notin> fst ` set meta_data \<longrightarrow> start_date = None \<and> end_date = None)"
  using assms
  unfolding parse_meta_data_def Let_def
  by (auto simp: record_dates_def datetime_def float_eq_def list_all_iff
      split: sum.splits val.splits if_splits prod.splits)

theorem parse_meta_data_filter_and_dates_witness:
  "parse_meta_data [''square_0'', ''square_1''] catalog_with_year 0 3 =
     Inr [FCoords [[Num 1, Num 2], [Num 3, Num 4]], FVal (VTuple [Num 1, Num 2]),
          FVal (VStr ''x1y2''), FCoords [[Num 0, Num 0], [Num 9, Num 9]], FVal (VStr ''sq0''),
          FDate (Some (Datetime 2017 6 1)), FDate (Some (Datetime 2020 9 1)),
          FAttrs [(''year'', VInt 2020), (''stratum'', VStr ''forest'')]]
   \<and> (\<exists>geometry_values.
         rows_at catalog_with_year
           (filter (contains ''geometry_'') (map fst catalog_with_year)) 0 = Inr geometry_values
         \<and> filter (list_all (\<lambda>c. c \<noteq> NaN)) geometry_values = [[Num 1, Num 2], [Num 3, Num 4]])"
proof -
  have ret: "parse_meta_data [''square_0'', ''square_1''] catalog_with_year 0 3 =
     Inr [FCoords [[Num 1, Num 2], [Num 3, Num 4]], FVal (VTuple [Num 1, Num 2]),
          FVal (VStr ''x1y2''), FCoords [[Num 0, Num 0], [Num 9, Num 9]], FVal (VStr ''sq0''),
          FDate (Some (Datetime 2017 6 1)), FDate (Some (Datetime 2020 9 1)),
          FAttrs [(''year'', VInt 2020), (''stratum'', VStr ''forest'')]]"
    by (simp add: parse_meta_data_def catalog_with_year_def rows_at_def isel_def item_at_def
        row_of_def record_dates_def record_attributes_def datetime_def days_in_month_def
        float_eq_def Let_def)
  from parse_meta_data_filter_and_dates [OF ret] ret show ?thesis by auto
qed

section \<open>Reshaped arrays\<close>

lemma length_assign_slice: "length (assign_slice a b v xs) = length xs"
  by (auto simp: assign_slice_def slice_len_def slice_bound_def Let_def min_def max_def)

lemma assign_slice_single:
  assumes "0 \<le> i" and "i < int (length xs)"
  shows "assign_slice i (i + 1) v xs = xs[nat i := v]"
proof -
  have lo: "slice_bound i (length xs) = nat i" using assms by (simp add: slice_bound_def)
  have hi: "slice_bound (i + 1) (length xs) = nat i + 1"
    using assms by (auto simp: slice_bound_def min_def nat_add_distrib)
  have "assign_slice i (i + 1) v xs = take (nat i) xs @ [v] @ drop (nat i + 1) xs"
    by (simp add: assign_slice_def slice_len_def lo hi Let_def)
  also have "\<dots> = xs[nat i := v]"
    using assms by (simp add: upd_conv_take_nth_drop)
  finally show ?thesis .
qed

lemma dict_set_keys: "k \<in> set (map fst al) \<Longrightarrow> k \<in> set (map fst (dict_set k' v al))"
  by (induction al) auto

lemma annotation_Some:
  assumes "annotation cfg arr square_name xattrs strata_map = Inr r"
    and "''overlap'' \<in> set (map fst (named_fields arr))"
    and "STRATA_ATTR_NAME cfg \<in> set (map fst xattrs)"
  shows "\<exists>overlap stratum smap idx.
           get_field arr ''overlap'' = Inr overlap
           \<and> map_of xattrs (STRATA_ATTR_NAME cfg) = Some stratum
           \<and> strata_map = Some smap \<and> map_of smap stratum = Some idx
           \<and> r = Some \<lparr>da_name = square_name, attrs = [], chunks = [],
                        x_size = shape_x arr, y_size = shape_y arr, trail = [],
                        planes = assign_slice idx (idx + 1) overlap
                                   (map (\<lambda>s. replicate (shape_x arr) (replicate (shape_y arr) (Num 0)))
                                      smap)\<rparr>"
  using assms
  by (auto simp: annotation_def Let_def split: sum.splits option.splits)

lemma pad_xy_xarray_InrD:
  assumes "pad_xy_xarray fill a edge = Inr b"
  shows "int (x_size a) \<le> edge" and "int (y_size a) \<le> edge"
    and "x_size b = nat edge" and "y_size b = nat edge"
    and "planes b = map (center_padded edge fill (x_size a) (y_size a)) (planes a)"
    and "chunks b = chunks a" and "da_name b = da_name a"
proof -
  define xd where "xd = edge - int (x_size a)"
  define yd where "yd = edge - int (y_size a)"
  have nn: "\<not> (xd div 2 < 0 \<or> xd - xd div 2 < 0 \<or> yd div 2 < 0 \<or> yd - yd div 2 < 0)"
    using assms
    by (auto simp: pad_xy_xarray_def pad_def Let_def xd_def yd_def split: if_splits)
  then have x0: "0 \<le> xd" and y0: "0 \<le> yd" by linarith+
  have b: "b = a\<lparr>x_size := nat (xd div 2) + x_size a + nat (xd - xd div 2),
                  y_size := nat (yd div 2) + y_size a + nat (yd - yd div 2),
                  planes := map (\<lambda>p. pad_list (nat (xd div 2)) (nat (xd - xd div 2))
                      (replicate (nat (yd div 2) + y_size a + nat (yd - yd div 2)) fill)
                      (map (pad_list (nat (yd div 2)) (nat (yd - yd div 2)) fill) p)) (planes a)\<rparr>"
    using assms nn
    by (simp add: pad_xy_xarray_def pad_def Let_def xd_def yd_def)
  have sx: "nat (xd div 2) + x_size a + nat (xd - xd div 2) = nat edge"
    using x0 by (simp add: xd_def)
  have sy: "nat (yd div 2) + y_size a + nat (yd - yd div 2) = nat edge"
    using y0 by (simp add: yd_def)
  have sy2: "y_size a + nat yd = nat edge"
    using y0 by (simp add: yd_def)
  have ux: "nat (xd - xd div 2) = nat xd - nat (xd div 2)"
    using x0 by (simp add: nat_diff_distrib)
  have uy: "nat (yd - yd div 2) = nat yd - nat (yd div 2)"
    using y0 by (simp add: nat_diff_distrib)
  show "int (x_size a) \<le> edge" "int (y_size a) \<le> edge"
    using x0 y0 by (simp_all add: xd_def yd_def)
  show "x_size b = nat edge" "y_size b = nat edge" using sx sy by (simp_all add: b)
  show "chunks b = chunks a" "da_name b = da_name a" by (simp_all add: b)
  show "planes b = map (center_padded edge fill (x_size a) (y_size a)) (planes a)"
    unfolding b
    by (simp add: sy sy2 center_padded_def pad_list_def Let_def ux uy xd_def [symmetric]
        yd_def [symmetric])
qed

lemma center_padded_cell:
  assumes "length p = nx" and "\<forall>row \<in> set p. length row = ny"
    and "int nx \<le> edge" and "int ny \<le> edge" and "i < nat edge" and "j < nat edge"
  shows "center_padded edge fill nx ny p ! i ! j =
           (let x_lower = nat ((edge - int nx) div 2); y_lower = nat ((edge - int ny) div 2)
            in if x_lower \<le> i \<and> i < x_lower + nx \<and> y_lower \<le> j \<and> j < y_lower + ny
               then p ! (i - x_lower) ! (j - y_lower) else fill)"
proof -
  define xl where "xl = nat ((edge - int nx) div 2)"
  define yl where "yl = nat ((edge - int ny) div 2)"
  define xu where "xu = nat (edge - int nx) - xl"
  define yu where "yu = nat (edge - int ny) - yl"
  have sx: "xl + nx + xu = nat edge" and sy: "yl + ny + yu = nat edge"
    using assms(3,4) by (auto simp: xl_def xu_def yl_def yu_def)
  have cp: "center_padded edge fill nx ny p =
          replicate xl (replicate (nat edge) fill)
          @ map (\<lambda>row. replicate yl fill @ row @ replicate yu fill) p
          @ replicate xu (replicate (nat edge) fill)"
    by (simp add: center_padded_def Let_def xl_def yl_def xu_def yu_def)
  consider (lo) "i < xl" | (mid) "xl \<le> i" "i < xl + nx" | (hi) "xl + nx \<le> i" by linarith
  then have "center_padded edge fill nx ny p ! i ! j =
           (if xl \<le> i \<and> i < xl + nx \<and> yl \<le> j \<and> j < yl + ny
               then p ! (i - xl) ! (j - yl) else fill)"
  proof cases
    case lo
    then show ?thesis using assms(6) by (simp add: cp nth_append)
  next
    case hi
    then have u: "i - (xl + nx) < xu" using sx assms(5) by linarith
    let ?A = "replicate xl (replicate (nat edge) fill)"
    let ?B = "map (\<lambda>row. replicate yl fill @ row @ replicate yu fill) p"
    let ?C = "replicate xu (replicate (nat edge) fill)"
    have n: "\<not> i < xl" "\<not> i - xl < nx" "i - xl - nx = i - (xl + nx)"
      using hi by linarith+
    have "(?A @ ?B @ ?C) ! i = ?C ! (i - (xl + nx))"
      using n assms(1) by (simp add: nth_append)
    also have "\<dots> = replicate (nat edge) fill" using u by simp
    finally show ?thesis using hi assms(6) by (simp add: cp)
  next
    case mid
    then have r: "i - xl < length p" using assms(1) by linarith
    then have lr: "length (p ! (i - xl)) = ny" using assms(2) by simp
    have "center_padded edge fill nx ny p ! i
            = replicate yl fill @ (p ! (i - xl)) @ replicate yu fill"
      using mid r assms(1) by (simp add: cp nth_append)
    moreover have "j - (yl + ny) < yu" if "yl + ny \<le> j" using that sy assms(6) by linarith
    ultimately show ?thesis using mid lr by (auto simp: nth_append)
  qed
  then show ?thesis by (simp add: Let_def xl_def yl_def)
qed

lemma zarr_reshape_InrD:
  assumes "zarr_reshape cfg arr pixel_edge_size square_name point_name attributes strata_map
             = Inr (xarr, xarr_ann)"
  shows "\<exists>given ann0.
    attributes = Some given
    \<and> annotation cfg arr square_name (dict_set ''point'' point_name given) strata_map = Inr ann0
    \<and> chunks xarr = [(''year'', 1)]
    \<and> (\<not> pixel_edge_size > int (min (shape_x arr) (shape_y arr)) \<longrightarrow>
           xarr_ann = map_option (\<lambda>ann. ann\<lparr>chunks := [(STRATA_DIM_NAME cfg, 1)]\<rparr>) ann0)
    \<and> (pixel_edge_size > int (min (shape_x arr) (shape_y arr)) \<longrightarrow>
           (\<forall>a. ann0 = Some a \<longrightarrow>
              (\<exists>padded. pad_xy_xarray (NO_DATA_VALUE cfg) a pixel_edge_size = Inr padded
                 \<and> xarr_ann = Some (padded\<lparr>chunks := [(STRATA_DIM_NAME cfg, 1)]\<rparr>))))"
  using assms
  unfolding zarr_reshape_def Let_def
  by (auto split: sum.splits option.splits prod.splits if_splits)

text \<open>
  C5 fails as stated: when the pixel edge size exceeds the array's extent, every slice of
  the annotation is padded with the no-data value. For a one-pixel array padded to
  edge 3, the slice of the stratum that is not the record's holds the no-data value
  around its single zero, and the record's slice is the padded mask, not the mask.
\<close>

theorem zarr_reshape_padded_counterexample:
  "zarr_reshape example_settings one_pixel 3 (VStr ''sq'') (VStr ''pt'')
     (Some [(''stratum'', VStr ''forest'')]) (Some two_strata) =
   Inr (\<lparr>da_name = VStr ''sq'', attrs = [(''stratum'', VStr ''forest''), (''point'', VStr ''pt'')],
         chunks = [(''year'', 1)], x_size = 3, y_size = 3, trail = [1],
         planes = [[[[Num (- 9999)], [Num (- 9999)], [Num (- 9999)]],
                    [[Num (- 9999)], [Num 5], [Num (- 9999)]],
                    [[Num (- 9999)], [Num (- 9999)], [Num (- 9999)]]]]\<rparr>,
        Some \<lparr>da_name = VStr ''sq'', attrs = [], chunks = [(''strata'', 1)], x_size = 3, y_size = 3,
              trail = [],
              planes = [[[Num (- 9999), Num (- 9999), Num (- 9999)],
                         [Num (- 9999), Num 1, Num (- 9999)],
                         [Num (- 9999), Num (- 9999), Num (- 9999)]],
                        [[Num (- 9999), Num (- 9999), Num (- 9999)],
                         [Num (- 9999), Num 0, Num (- 9999)],
                         [Num (- 9999), Num (- 9999), Num (- 9999)]]]\<rparr>)"
  by (simp add: zarr_reshape_def annotation_def example_settings_def one_pixel_def two_strata_def
      unzip_pairs_def stack_years_def get_field_def dstack_def assign_slice_def slice_bound_def
      slice_len_def pad_xy_xarray_def pad_def pad_list_def Let_def numeral_3_eq_3)

text \<open>
  C5 as amended. Whenever \<open>zarr_reshape\<close> returns for a raw array with an \<open>overlap\<close> field
  and attributes that include the stratum attribute, the chip is chunked one chunk per
  year and there is an annotation, chunked one chunk per stratum, with one slice per
  entry of the strata map. When no padding applies (the pixel edge size does not exceed
  the smaller spatial extent) and the strata map gives the record's stratum an index
  among its entries, the slice at that index is the overlap mask and every other slice
  is zero. When padding applies, both extents of the array are at most the pixel edge
  size, the annotation has the pixel edge size as both extents, and every slice of it
  is the slice of the unpadded annotation, centered and padded with the no-data value:
  with an index among the entries, the padded overlap mask at that index and the padded
  zero slice everywhere else.
\<close>

theorem zarr_reshape_annotation:
  assumes ret: "zarr_reshape cfg arr pixel_edge_size square_name point_name (Some given) strata_map
             = Inr (xarr, xarr_ann)"
    and ov: "''overlap'' \<in> set (map fst (named_fields arr))"
    and at: "STRATA_ATTR_NAME cfg \<in> set (map fst given)"
  shows "chunks xarr = [(''year'', 1)]
     \<and> (\<exists>ann overlap stratum smap idx.
          xarr_ann = Some ann \<and> chunks ann = [(STRATA_DIM_NAME cfg, 1)]
          \<and> get_field arr ''overlap'' = Inr overlap
          \<and> map_of (dict_set ''point'' point_name given) (STRATA_ATTR_NAME cfg) = Some stratum
          \<and> strata_map = Some smap \<and> map_of smap stratum = Some idx
          \<and> length (planes ann) = length smap
          \<and> (pixel_edge_size \<le> int (min (shape_x arr) (shape_y arr))
               \<and> 0 \<le> idx \<and> idx < int (length smap) \<longrightarrow>
               length (planes ann) = length smap
               \<and> (\<forall>k < length smap.
                     planes ann ! k =
                       (if k = nat idx then overlap
                        else replicate (shape_x arr) (replicate (shape_y arr) (Num 0)))))
          \<and> (int (min (shape_x arr) (shape_y arr)) < pixel_edge_size \<longrightarrow>
               int (shape_x arr) \<le> pixel_edge_size \<and> int (shape_y arr) \<le> pixel_edge_size
               \<and> x_size ann = nat pixel_edge_size \<and> y_size ann = nat pixel_edge_size
               \<and> planes ann =
                   map (center_padded pixel_edge_size (NO_DATA_VALUE cfg) (shape_x arr) (shape_y arr))
                     (assign_slice idx (idx + 1) overlap
                        (map (\<lambda>s. replicate (shape_x arr) (replicate (shape_y arr) (Num 0))) smap))
               \<and> (0 \<le> idx \<and> idx < int (length smap) \<longrightarrow>
                    (\<forall>k < length smap.
                       planes ann ! k =
                         center_padded pixel_edge_size (NO_DATA_VALUE cfg) (shape_x arr) (shape_y arr)
                           (if k = nat idx then overlap
                            else replicate (shape_x arr) (replicate (shape_y arr) (Num 0)))))))"
proof -
  let ?attrs = "dict_set ''point'' point_name given"
  let ?zero = "replicate (shape_x arr) (replicate (shape_y arr) (Num 0))"
  let ?chunked = "\<lambda>ann. ann\<lparr>chunks := [(STRATA_DIM_NAME cfg, 1)]\<rparr>"
  from zarr_reshape_InrD [OF ret] obtain ann0 where
    a0: "annotation cfg arr square_name ?attrs strata_map = Inr ann0"
    and ch: "chunks xarr = [(''year'', 1)]"
    and nopad: "\<not> pixel_edge_size > int (min (shape_x arr) (shape_y arr)) \<longrightarrow>
           xarr_ann = map_option ?chunked ann0"
    and padded: "pixel_edge_size > int (min (shape_x arr) (shape_y arr)) \<longrightarrow>
           (\<forall>a. ann0 = Some a \<longrightarrow>
              (\<exists>padded. pad_xy_xarray (NO_DATA_VALUE cfg) a pixel_edge_size = Inr padded
                 \<and> xarr_ann = Some (?chunked padded)))"
    by auto
  have at': "STRATA_ATTR_NAME cfg \<in> set (map fst ?attrs)"
    using at by (rule dict_set_keys)
  from annotation_Some [OF a0 ov at'] obtain overlap stratum smap idx where
    o: "get_field arr ''overlap'' = Inr overlap"
    and s: "map_of ?attrs (STRATA_ATTR_NAME cfg) = Some stratum"
    and m: "strata_map = Some smap" "map_of smap stratum = Some idx"
    and r: "ann0 = Some \<lparr>da_name = square_name, attrs = [], chunks = [],
                        x_size = shape_x arr, y_size = shape_y arr, trail = [],
                        planes = assign_slice idx (idx + 1) overlap (map (\<lambda>s. ?zero) smap)\<rparr>"
    by blast
  let ?base = "assign_slice idx (idx + 1) overlap (map (\<lambda>s. ?zero) smap)"
  let ?a = "\<lparr>da_name = square_name, attrs = [], chunks = [],
             x_size = shape_x arr, y_size = shape_y arr, trail = [], planes = ?base\<rparr>"
  have base_len: "length ?base = length smap" by (simp add: length_assign_slice)
  have base_nth: "?base ! k = (if k = nat idx then overlap else ?zero)"
    if "0 \<le> idx" "idx < int (length smap)" "k < length smap" for k
  proof -
    have "?base = (map (\<lambda>s. ?zero) smap)[nat idx := overlap]"
      using that by (intro assign_slice_single) simp_all
    then show ?thesis using that by (auto simp: nth_list_update)
  qed
  show ?thesis
  proof (cases "pixel_edge_size > int (min (shape_x arr) (shape_y arr))")
    case False
    with nopad r have ann: "xarr_ann = Some (?chunked ?a)" by simp
    have "length (planes (?chunked ?a)) = length smap" using base_len by simp
    moreover have "\<forall>k < length smap. planes (?chunked ?a) ! k
                     = (if k = nat idx then overlap else ?zero)"
      if "0 \<le> idx" "idx < int (length smap)"
      using base_nth [OF that] by simp
    ultimately show ?thesis
      using False ch ann o s m by auto
  next
    case True
    with padded r obtain p where
      p: "pad_xy_xarray (NO_DATA_VALUE cfg) ?a pixel_edge_size = Inr p"
      and ann: "xarr_ann = Some (?chunked p)"
      by auto
    from pad_xy_xarray_InrD [OF p]
    have le: "int (shape_x arr) \<le> pixel_edge_size" "int (shape_y arr) \<le> pixel_edge_size"
      and px: "x_size p = nat pixel_edge_size" "y_size p = nat pixel_edge_size"
      and pp: "planes p = map (center_padded pixel_edge_size (NO_DATA_VALUE cfg)
                                 (shape_x arr) (shape_y arr)) ?base"
      by simp_all
    have len: "length (planes p) = length smap"
      using pp base_len by simp
    have nth: "\<forall>k < length smap. planes p ! k
                 = center_padded pixel_edge_size (NO_DATA_VALUE cfg) (shape_x arr) (shape_y arr)
                     (if k = nat idx then overlap else ?zero)"
      if "0 \<le> idx" "idx < int (length smap)"
      using base_nth [OF that] base_len pp by simp
    have body: "xarr_ann = Some (?chunked p) \<and> chunks (?chunked p) = [(STRATA_DIM_NAME cfg, 1)]
          \<and> get_field arr ''overlap'' = Inr overlap
          \<and> map_of ?attrs (STRATA_ATTR_NAME cfg) = Some stratum
          \<and> strata_map = Some smap \<and> map_of smap stratum = Some idx
          \<and> length (planes (?chunked p)) = length smap
          \<and> (pixel_edge_size \<le> int (min (shape_x arr) (shape_y arr))
               \<and> 0 \<le> idx \<and> idx < int (length smap) \<longrightarrow>
               length (planes (?chunked p)) = length smap
               \<and> (\<forall>k < length smap.
                     planes (?chunked p) ! k = (if k = nat idx then overlap else ?zero)))
          \<and> (int (min (shape_x arr) (shape_y arr)) < pixel_edge_size \<longrightarrow>
               int (shape_x arr) \<le> pixel_edge_size \<and> int (shape_y arr) \<le> pixel_edge_size
               \<and> x_size (?chunked p) = nat pixel_edge_size
               \<and> y_size (?chunked p) = nat pixel_edge_size
               \<and> planes (?chunked p) =
                   map (center_padded pixel_edge_size (NO_DATA_VALUE cfg) (shape_x arr) (shape_y arr))
                     ?base
               \<and> (0 \<le> idx \<and> idx < int (length smap) \<longrightarrow>
                    (\<forall>k < length smap.
                       planes (?chunked p) ! k =
                         center_padded pixel_edge_size (NO_DATA_VALUE cfg) (shape_x arr) (shape_y arr)
                           (if k = nat idx then overlap else ?zero))))"
      using True ann o s m len nth pp px le by simp
    show ?thesis
      using ch body by blast
  qed
qed

theorem zarr_reshape_annotation_witness:
  "zarr_reshape example_settings one_pixel 1 (VStr ''sq'') (VStr ''pt'')
     (Some [(''stratum'', VStr ''forest'')]) (Some two_strata) =
   Inr (\<lparr>da_name = VStr ''sq'', attrs = [(''stratum'', VStr ''forest''), (''point'', VStr ''pt'')],
         chunks = [(''year'', 1)], x_size = 1, y_size = 1, trail = [1], planes = [[[[Num 5]]]]\<rparr>,
        Some \<lparr>da_name = VStr ''sq'', attrs = [], chunks = [(''strata'', 1)], x_size = 1, y_size = 1,
              trail = [], planes = [[[Num 1]], [[Num 0]]]\<rparr>)
   \<and> ''overlap'' \<in> set (map fst (named_fields one_pixel))
   \<and> STRATA_ATTR_NAME example_settings \<in> set (map fst [(''stratum'', VStr ''forest'')])
   \<and> (\<exists>ann overlap idx.
         Some \<lparr>da_name = VStr ''sq'', attrs = [], chunks = [(''strata'', 1)], x_size = 1, y_size = 1,
               trail = [], planes = [[[Num 1]], [[Num 0]]]\<rparr> = Some ann
         \<and> get_field one_pixel ''overlap'' = Inr overlap
         \<and> map_of two_strata (VStr ''forest'') = Some idx
         \<and> planes ann ! nat idx = overlap)
   \<and> (\<exists>xarr ann.
         zarr_reshape example_settings one_pixel 3 (VStr ''sq'') (VStr ''pt'')
           (Some [(''stratum'', VStr ''forest'')]) (Some two_strata) = Inr (xarr, Some ann)
         \<and> int (min (shape_x one_pixel) (shape_y one_pixel)) < 3
         \<and> x_size ann = 3 \<and> y_size ann = 3
         \<and> planes ann = [center_padded 3 (Num (- 9999)) 1 1 [[Num 1]],
                         center_padded 3 (Num (- 9999)) 1 1 [[Num 0]]])"
proof -
  have ret: "zarr_reshape example_settings one_pixel 1 (VStr ''sq'') (VStr ''pt'')
     (Some [(''stratum'', VStr ''forest'')]) (Some two_strata) =
   Inr (\<lparr>da_name = VStr ''sq'', attrs = [(''stratum'', VStr ''forest''), (''point'', VStr ''pt'')],
         chunks = [(''year'', 1)], x_size = 1, y_size = 1, trail = [1], planes = [[[[Num 5]]]]\<rparr>,
        Some \<lparr>da_name = VStr ''sq'', attrs = [], chunks = [(''strata'', 1)], x_size = 1, y_size = 1,
              trail = [], planes = [[[Num 1]], [[Num 0]]]\<rparr>)"
    by (simp add: zarr_reshape_def annotation_def example_settings_def one_pixel_def
        two_strata_def unzip_pairs_def stack_years_def get_field_def dstack_def assign_slice_def
        slice_bound_def slice_len_def Let_def)
  have ov: "''overlap'' \<in> set (map fst (named_fields one_pixel))"
    by (simp add: one_pixel_def)
  have at: "STRATA_ATTR_NAME example_settings \<in> set (map fst [(''stratum'', VStr ''forest'')])"
    by (simp add: example_settings_def)
  have ev: "get_field one_pixel ''overlap'' = Inr [[Num 1]]"
           "map_of two_strata (VStr ''forest'') = Some 0"
    by (simp_all add: get_field_def one_pixel_def two_strata_def)
  have first: "\<exists>ann overlap idx.
         Some \<lparr>da_name = VStr ''sq'', attrs = [], chunks = [(''strata'', 1)], x_size = 1, y_size = 1,
               trail = [], planes = [[[Num 1]], [[Num 0]]]\<rparr> = Some ann
         \<and> get_field one_pixel ''overlap'' = Inr overlap
         \<and> map_of two_strata (VStr ''forest'') = Some idx
         \<and> planes ann ! nat idx = overlap"
    using zarr_reshape_annotation [OF ret ov at] ev by simp
  obtain xarr3 ann3 where ret3:
    "zarr_reshape example_settings one_pixel 3 (VStr ''sq'') (VStr ''pt'')
       (Some [(''stratum'', VStr ''forest'')]) (Some two_strata) = Inr (xarr3, Some ann3)"
    by (simp add: zarr_reshape_def annotation_def example_settings_def one_pixel_def two_strata_def
      unzip_pairs_def stack_years_def get_field_def dstack_def assign_slice_def slice_bound_def
      slice_len_def pad_xy_xarray_def pad_def pad_list_def Let_def numeral_3_eq_3)
  have sh: "shape_x one_pixel = 1" "shape_y one_pixel = 1"
    by (simp_all add: one_pixel_def)
  have nd: "NO_DATA_VALUE example_settings = Num (- 9999)"
    by (simp add: example_settings_def)
  have base: "assign_slice 0 1 [[Num 1]] [[[Num 0]], [[Num 0]]] = [[[Num 1]], [[Num 0]]]"
    by (simp add: assign_slice_def slice_bound_def slice_len_def Let_def)
  have second: "x_size ann3 = 3 \<and> y_size ann3 = 3
         \<and> planes ann3 = [center_padded 3 (Num (- 9999)) 1 1 [[Num 1]],
                          center_padded 3 (Num (- 9999)) 1 1 [[Num 0]]]"
    using zarr_reshape_annotation [OF ret3 ov at] ev
    by (simp add: sh two_strata_def base example_settings_def)
  show ?thesis
    using ret ov at first ret3 second sh by simp
qed

section \<open>The orchestrator\<close>

lemmas eval_defs =
  parse_meta_data_def rows_at_def isel_def item_at_def row_of_def
  record_dates_def record_attributes_def float_eq_def
  generator_step_def square_name_of_def check_existing_def probe_def valid_exception_def
  make_task_def lt_image_generator_def epsg_code_of_def failed_record_def
  report_put_def image_put_def result_put_def image_generator_def

lemmas example_defs =
  three_squares_def zarr_downloader_def example_settings_def good_service_def one_present_def

lemmas run_defs =
  consume_task_def persist_def write_square_def write_file_def to_zarr_def store_name_def
  image_consumer_def run_workers_def watcher_def
  zarr_reshape_def annotation_def unzip_pairs_def stack_years_def get_field_def dstack_def
  assign_slice_def slice_bound_def slice_len_def one_pixel_def two_strata_def

subsection \<open>The watcher's loop\<close>

text \<open>
  Whether the watcher's loop ends depends only on how many names the result queue
  holds, not on their order: it waits forever exactly when they are fewer than the
  counter still needs.
\<close>

lemma watch_None_iff:
  "watch self idx jdx q reports = None
     \<longleftrightarrow> idx + length (filter (\<lambda>r. r \<noteq> None) q) < d_meta_size self"
  by (induction q arbitrary: idx jdx reports) (auto split: option.splits)

lemma check_existing_zarr_present:
  assumes "d_file_type self = ''ZARR''" and "\<not> d_overwrite self"
    and "probe (chip_zarr w (d_chip_data_path self)) square_name = None"
    and "probe (anno_zarr w (d_anno_data_path self)) square_name = None"
  shows "check_existing self file_ext square_name w
           = (Continue, report_put (Report INFO (PolygonExists square_name)) w)"
    and "result_queue (snd (check_existing self file_ext square_name w)) = result_queue w"
  using assms by (simp_all add: check_existing_def report_put_def Let_def)

text \<open>
  C1, at a catalog of three squares of which the second is already in both chunked
  stores, with overwrite off, two workers and a service that answers every request:
  the generator enqueues two tasks (and the two sentinels) and puts nothing on the
  result queue for the square it skips; after the consumers the result queue holds two
  names and two sentinels; the watcher's counter stops at 2 of 3 and its loop never
  ends.
\<close>

theorem present_square_never_counted:
  "map_sum id (\<lambda>w. (map (map_option t_square_name) (image_queue w), result_queue w))
     (image_generator zarr_downloader good_service one_present)
     = Inr ([Some (VStr ''sq0''), Some (VStr ''sq2''), None, None], [])
   \<and> result_queue (run_workers zarr_downloader good_service one_present)
       = [Some (VStr ''sq0''), Some (VStr ''sq2''), None, None]
   \<and> d_meta_size zarr_downloader = 3
   \<and> watcher zarr_downloader good_service one_present = None"
  by (simp add: eval_defs example_defs run_defs fetch_loop.simps Let_def numeral_3_eq_3
      numeral_2_eq_2)

subsection \<open>The size check of \<open>start\<close>\<close>

lemma parse_meta_data_length:
  "parse_meta_data cols md idx bstep = Inr r \<Longrightarrow> length r = 8"
  unfolding parse_meta_data_def Let_def
  by (auto split: sum.splits prod.splits)

lemma start_without_bypass:
  assumes "\<not> d_ignore_size_limit self"
  shows "\<exists>e. start self ee w = Inl e"
proof (cases "parse_meta_data (SQUARE_COLUMNS (d_settings self)) (d_meta_data self) 0
                (d_back_step self)")
  case (Inl e)
  with assms show ?thesis by (simp add: start_def)
next
  case (Inr parsed)
  then have "length parsed = 8" by (rule parse_meta_data_length)
  then have "unpack 7 parsed = Inl ValueError" by (simp add: unpack_def)
  with assms Inr show ?thesis by (simp add: start_def)
qed

lemma sqrt_gt_pixel_limit: "sqrt (real p) > pixel_limit \<longleftrightarrow> p > 1024000000"
proof -
  have "sqrt (real p) > 32000 \<longleftrightarrow> sqrt (real p) > sqrt (32000\<^sup>2)"
    by simp
  also have "\<dots> \<longleftrightarrow> real p > 32000\<^sup>2"
    by (rule real_sqrt_less_iff)
  also have "\<dots> \<longleftrightarrow> p > 1024000000"
    by (simp add: power2_eq_square)
  finally show ?thesis by (simp add: pixel_limit_def)
qed

lemma check_limits_iff:
  "check_limits test_size test_pixels test_bands = Inl ValueError
     \<longleftrightarrow> test_size > 65 \<or> test_pixels > 1024000000 \<or> test_bands > 1024"
  by (auto simp: check_limits_def sqrt_gt_pixel_limit size_limit_def band_limit_def)

lemma check_limits_cases:
  "check_limits test_size test_pixels test_bands = Inl ValueError
   \<or> check_limits test_size test_pixels test_bands = Inr ()"
  by (simp add: check_limits_def)

text \<open>
  C2, with the size check switched on and an estimate far below every limit (1 MB,
  100 pixels, 6 bands): \<open>start\<close> raises all the same, because the eight components that
  \<open>parse_meta_data\<close> returns are assigned to seven targets; the estimate is never made
  and the watcher never launched.
\<close>

theorem start_raises_within_limits:
  "start checked_downloader good_service one_present = Inl ValueError
   \<and> estimate good_service ''image'' = Inr (1, 100, 6)
   \<and> check_limits 1 100 6 = Inr ()"
proof -
  have "check_limits 1 100 6 \<noteq> Inl ValueError"
    by (simp add: check_limits_iff)
  then have "check_limits 1 100 6 = Inr ()"
    using check_limits_cases [of 1 100 6] by simp
  moreover have "start checked_downloader good_service one_present = Inl ValueError"
    by (simp add: start_def checked_downloader_def eval_defs example_defs unpack_def Let_def)
  ultimately show ?thesis by (simp add: good_service_def)
qed

subsection \<open>The retry loop of the consumer\<close>

lemma fetch_loop_done:
  "\<not> a < d_retries self \<Longrightarrow> fetch_loop self ee t a w = (None, w)"
  by (simp add: fetch_loop.simps [of self ee t a w])

lemma fetch_loop_all_fail:
  assumes "\<forall>n. a < n \<and> n \<le> d_retries self \<longrightarrow> (\<exists>e. compute_pixels ee t n = Inl e)"
  shows "fst (fetch_loop self ee t a w) = None
         \<and> files (snd (fetch_loop self ee t a w)) = files w
         \<and> chip_zarr (snd (fetch_loop self ee t a w)) = chip_zarr w
         \<and> anno_zarr (snd (fetch_loop self ee t a w)) = anno_zarr w
         \<and> image_queue (snd (fetch_loop self ee t a w)) = image_queue w
         \<and> result_queue (snd (fetch_loop self ee t a w))
             = result_queue w @ (if a < d_retries self then [Some (t_square_name t)] else [])
         \<and> (a < d_retries self \<longrightarrow>
               Some (Report ERROR (MaxRetries (t_square_name t)))
                 \<in> set (report_queue (snd (fetch_loop self ee t a w))))"
  using assms
proof (induction self ee t a w rule: fetch_loop.induct)
  case (1 self ee t attempts w)
  show ?case
  proof (cases "attempts < d_retries self")
    case False
    then show ?thesis by (simp add: fetch_loop.simps [of self ee t attempts w])
  next
    case True
    then obtain e where e: "compute_pixels ee t (attempts + 1) = Inl e"
      using "1.prems" by force
    let ?w1 = "report_put (Report INFO (RequestingPixels (t_square_name t))) w"
    let ?w2 = "report_put (Report WARNING
                 (FailedAttempt (attempts + 1) (d_retries self) e (t_square_name t))) ?w1"
    let ?w3 = "if attempts + 1 = d_retries self
               then result_put (Some (t_square_name t))
                      (report_put (Report ERROR (MaxRetries (t_square_name t))) ?w2)
               else report_put (Report INFO (Retrying (t_square_name t))) ?w2"
    have unfold: "fetch_loop self ee t attempts w = fetch_loop self ee t (attempts + 1) ?w3"
      using True e by (simp add: fetch_loop.simps [of self ee t attempts w] Let_def)
    have prem: "\<forall>n. attempts + 1 < n \<and> n \<le> d_retries self
                  \<longrightarrow> (\<exists>e. compute_pixels ee t n = Inl e)"
      using "1.prems" by auto
    note IH = "1.IH" [OF True refl refl e refl refl prem]
    show ?thesis
    proof (cases "attempts + 1 = d_retries self")
      case last: True
      have stop: "fetch_loop self ee t (attempts + 1) ?w3 = (None, ?w3)"
        using last by (intro fetch_loop_done) simp
      show ?thesis
        using True last unfolding unfold stop
        by (simp add: report_put_def result_put_def)
    next
      case more: False
      with True have lt: "attempts + 1 < d_retries self" by simp
      show ?thesis
        using IH True lt more unfolding unfold
        by (simp add: report_put_def result_put_def)
    qed
  qed
qed

text \<open>
  A square whose fetch fails on every attempt is put on the result queue twice: by the
  attempt that uses up the retries and by the end of the task.
\<close>

lemma failed_square_put_twice:
  assumes "0 < d_retries self"
    and "\<forall>n. 0 < n \<and> n \<le> d_retries self \<longrightarrow> (\<exists>e. compute_pixels ee t n = Inl e)"
  shows "result_queue (consume_task self ee t w)
           = result_queue w @ [Some (t_square_name t), Some (t_square_name t)]"
proof -
  from fetch_loop_all_fail [OF assms(2), of w] assms(1)
  obtain w1 where "fetch_loop self ee t 0 w = (None, w1)"
    and "result_queue w1 = result_queue w @ [Some (t_square_name t)]"
    by (cases "fetch_loop self ee t 0 w") auto
  then show ?thesis by (simp add: consume_task_def result_put_def)
qed

lemma fetch_loop_last_succeeds:
  assumes "\<forall>n. a < n \<and> n < d_retries self \<longrightarrow> (\<exists>e. compute_pixels ee t n = Inl e)"
    and "compute_pixels ee t (d_retries self) = Inr arr"
    and "a < d_retries self"
  shows "fst (fetch_loop self ee t a w) = Some arr
         \<and> files (snd (fetch_loop self ee t a w)) = files w
         \<and> chip_zarr (snd (fetch_loop self ee t a w)) = chip_zarr w
         \<and> anno_zarr (snd (fetch_loop self ee t a w)) = anno_zarr w
         \<and> image_queue (snd (fetch_loop self ee t a w)) = image_queue w
         \<and> result_queue (snd (fetch_loop self ee t a w)) = result_queue w
         \<and> errors_reported (snd (fetch_loop self ee t a w)) = errors_reported w"
  using assms
proof (induction self ee t a w rule: fetch_loop.induct)
  case (1 self ee t attempts w)
  have lt: "attempts < d_retries self" by (rule "1.prems"(3))
  show ?case
  proof (cases "attempts + 1 = d_retries self")
    case True
    then have "compute_pixels ee t (attempts + 1) = Inr arr" using "1.prems"(2) by simp
    then show ?thesis
      using lt
      by (simp add: fetch_loop.simps [of self ee t attempts w] Let_def report_put_def
          errors_reported_def)
  next
    case False
    with lt have lt2: "attempts + 1 < d_retries self" by simp
    then obtain e where e: "compute_pixels ee t (attempts + 1) = Inl e"
      using "1.prems"(1) by force
    let ?w1 = "report_put (Report INFO (RequestingPixels (t_square_name t))) w"
    let ?w2 = "report_put (Report WARNING
                 (FailedAttempt (attempts + 1) (d_retries self) e (t_square_name t))) ?w1"
    let ?w3 = "if attempts + 1 = d_retries self
               then result_put (Some (t_square_name t))
                      (report_put (Report ERROR (MaxRetries (t_square_name t))) ?w2)
               else report_put (Report INFO (Retrying (t_square_name t))) ?w2"
    have unfold: "fetch_loop self ee t attempts w = fetch_loop self ee t (attempts + 1) ?w3"
      using lt e by (simp add: fetch_loop.simps [of self ee t attempts w] Let_def)
    have prem: "\<forall>n. attempts + 1 < n \<and> n < d_retries self
                  \<longrightarrow> (\<exists>e. compute_pixels ee t n = Inl e)"
      using "1.prems"(1) by auto
    note IH = "1.IH" [OF lt refl refl e refl refl prem "1.prems"(2) lt2]
    show ?thesis
      using IH False unfolding unfold by (simp add: report_put_def errors_reported_def)
  qed
qed


lemma fetch_loop_appends:
  "(\<exists>q. result_queue (snd (fetch_loop self ee t a w)) = result_queue w @ q)
   \<and> image_queue (snd (fetch_loop self ee t a w)) = image_queue w"
proof (induction self ee t a w rule: fetch_loop.induct)
  case (1 self ee t attempts w)
  show ?case
  proof (cases "attempts < d_retries self")
    case False
    then show ?thesis by (simp add: fetch_loop_done)
  next
    case True
    let ?w1 = "report_put (Report INFO (RequestingPixels (t_square_name t))) w"
    show ?thesis
    proof (cases "compute_pixels ee t (attempts + 1)")
      case (Inr arr)
      then show ?thesis
        using True by (simp add: fetch_loop.simps [of self ee t attempts w] Let_def report_put_def)
    next
      case (Inl e)
      let ?w2 = "report_put (Report WARNING
                   (FailedAttempt (attempts + 1) (d_retries self) e (t_square_name t))) ?w1"
      let ?w3 = "if attempts + 1 = d_retries self
                 then result_put (Some (t_square_name t))
                        (report_put (Report ERROR (MaxRetries (t_square_name t))) ?w2)
                 else report_put (Report INFO (Retrying (t_square_name t))) ?w2"
      have unfold: "fetch_loop self ee t attempts w = fetch_loop self ee t (attempts + 1) ?w3"
        using True Inl by (simp add: fetch_loop.simps [of self ee t attempts w] Let_def)
      note IH = "1.IH" [OF True refl refl Inl refl refl]
      have "\<exists>q. result_queue ?w3 = result_queue w @ q" "image_queue ?w3 = image_queue w"
        by (simp_all add: report_put_def result_put_def)
      with IH show ?thesis unfolding unfold by auto
    qed
  qed
qed

lemma write_file_queues:
  "result_queue (snd (write_file ee p arr w)) = result_queue w
   \<and> image_queue (snd (write_file ee p arr w)) = image_queue w"
  by (simp add: write_file_def split: option.splits)

lemma write_square_queues:
  "result_queue (snd (write_square self ee t arr w)) = result_queue w
   \<and> image_queue (snd (write_square self ee t arr w)) = image_queue w"
  by (simp add: write_square_def write_file_queues report_put_def Let_def
      split: raw.splits sum.splits prod.splits option.splits)

lemma persist_queues:
  "result_queue (persist self ee t arr w) = result_queue w
   \<and> image_queue (persist self ee t arr w) = image_queue w"
proof -
  let ?w1 = "report_put (Report INFO (AttemptingSave (t_square_name t))) w"
  obtain r w2 where ws: "write_square self ee t arr ?w1 = (r, w2)"
    by (cases "write_square self ee t arr ?w1")
  from write_square_queues [of self ee t arr ?w1] ws
  have "result_queue w2 = result_queue w" "image_queue w2 = image_queue w"
    by (simp_all add: report_put_def)
  then show ?thesis
    unfolding persist_def Let_def ws
    by (cases r) (simp_all add: report_put_def split: option.splits)
qed

lemma consume_task_queues:
  "(\<exists>q. result_queue (consume_task self ee t w) = result_queue w @ q @ [Some (t_square_name t)])
   \<and> image_queue (consume_task self ee t w) = image_queue w"
proof -
  obtain r w1 where f: "fetch_loop self ee t 0 w = (r, w1)"
    by (cases "fetch_loop self ee t 0 w")
  from fetch_loop_appends [of self ee t 0 w] f
  obtain q where "result_queue w1 = result_queue w @ q" "image_queue w1 = image_queue w"
    by auto
  then show ?thesis
    by (cases r) (simp_all add: consume_task_def f result_put_def persist_queues)
qed

lemma consumer_loop_sentinel:
  "\<exists>w2. consumer_loop self ee (map Some ts @ None # rest) w = Some w2
        \<and> image_queue w2 = rest
        \<and> (\<exists>q. result_queue w2 = result_queue w @ q @ [None]
               \<and> (\<forall>t' \<in> set ts. Some (t_square_name t') \<in> set q))"
proof (induction ts arbitrary: w)
  case Nil
  show ?case by (simp add: result_put_def)
next
  case (Cons t ts)
  let ?q = "map Some ts @ None # rest"
  let ?w1 = "consume_task self ee t (w\<lparr>image_queue := ?q\<rparr>)"
  from consume_task_queues [of self ee t "w\<lparr>image_queue := ?q\<rparr>"]
  obtain q1 where q1: "result_queue ?w1 = result_queue w @ q1 @ [Some (t_square_name t)]"
    by auto
  from Cons.IH [of ?w1] obtain w2 q2 where
    w2: "consumer_loop self ee ?q ?w1 = Some w2" "image_queue w2 = rest"
    and q2: "result_queue w2 = result_queue ?w1 @ q2 @ [None]"
            "\<forall>t' \<in> set ts. Some (t_square_name t') \<in> set q2"
    by blast
  have "result_queue w2 = result_queue w @ (q1 @ [Some (t_square_name t)] @ q2) @ [None]"
    using q1 q2(1) by simp
  moreover have "\<forall>t' \<in> set (t # ts). Some (t_square_name t')
                    \<in> set (q1 @ [Some (t_square_name t)] @ q2)"
    using q2(2) by auto
  ultimately show ?case
    using w2 by (simp del: append_assoc)
qed

lemma persist_file:
  assumes "d_file_type self = ''NPY'' \<or> d_file_type self = ''GEO_TIFF''
           \<or> d_file_type self = ''NUMPY_NDARRAY''"
    and "write_raises ee (t_chip_data_path t) = None"
  shows "files (persist self ee t arr w) = (files w)(t_chip_data_path t \<mapsto> arr)"
    and "chip_zarr (persist self ee t arr w) = chip_zarr w"
    and "anno_zarr (persist self ee t arr w) = anno_zarr w"
    and "errors_reported (persist self ee t arr w) = errors_reported w"
  using assms
  by (auto simp: persist_def write_square_def write_file_def report_put_def Let_def
      errors_reported_def)

lemma stored_to_zarr:
  assumes "z \<noteq> Unreadable"
  shows "\<exists>z'. to_zarr z name a = Inr z' \<and> stored z' name = Some a
            \<and> (\<forall>k. k \<noteq> name \<longrightarrow> stored z' k = stored z k)"
  using assms by (cases z) (simp_all add: to_zarr_def stored_def)

lemma persist_zarr:
  assumes ft: "d_file_type self = ''ZARR''"
    and rs: "zarr_reshape (d_settings self) px (d_pixel_edge_size self) (t_square_name t)
           (t_point_name t) (Some (t_attributes t)) (loaded_strata_map ee) = Inr (xarr_chip, xarr_anno)"
    and rd: "chip_zarr w (store_name (t_chip_data_path t)) \<noteq> Unreadable"
  shows "stored (chip_zarr (persist self ee t (RawPixels px) w) (store_name (t_chip_data_path t)))
           (t_square_name t) = Some xarr_chip"
    and "\<forall>k. k \<noteq> t_square_name t \<longrightarrow>
           stored (chip_zarr (persist self ee t (RawPixels px) w) (store_name (t_chip_data_path t))) k
             = stored (chip_zarr w (store_name (t_chip_data_path t))) k"
    and "\<forall>s. s \<noteq> store_name (t_chip_data_path t) \<longrightarrow>
           chip_zarr (persist self ee t (RawPixels px) w) s = chip_zarr w s"
    and "files (persist self ee t (RawPixels px) w) = files w"
    and "xarr_anno = None \<longrightarrow>
           anno_zarr (persist self ee t (RawPixels px) w) = anno_zarr w
           \<and> errors_reported (persist self ee t (RawPixels px) w) = errors_reported w"
    and "\<forall>ann. xarr_anno = Some ann \<and> anno_zarr w (store_name (t_anno_data_path t)) \<noteq> Unreadable \<longrightarrow>
           stored (anno_zarr (persist self ee t (RawPixels px) w) (store_name (t_anno_data_path t)))
             (t_square_name t) = Some ann
           \<and> (\<forall>k. k \<noteq> t_square_name t \<longrightarrow>
                 stored (anno_zarr (persist self ee t (RawPixels px) w)
                           (store_name (t_anno_data_path t))) k
                   = stored (anno_zarr w (store_name (t_anno_data_path t))) k)
           \<and> (\<forall>s. s \<noteq> store_name (t_anno_data_path t) \<longrightarrow>
                 anno_zarr (persist self ee t (RawPixels px) w) s = anno_zarr w s)
           \<and> errors_reported (persist self ee t (RawPixels px) w) = errors_reported w"
proof -
  let ?n = "t_square_name t"
  let ?cs = "store_name (t_chip_data_path t)"
  let ?as = "store_name (t_anno_data_path t)"
  let ?w2 = "report_put (Report INFO (WritingChip ?n))
               (report_put (Report INFO (Reshaping ?n))
                  (report_put (Report INFO (AttemptingSave ?n)) w))"
  from stored_to_zarr [OF rd, of ?n xarr_chip] obtain z where
    z: "to_zarr (chip_zarr w ?cs) ?n xarr_chip = Inr z" "stored z ?n = Some xarr_chip"
       "\<forall>k. k \<noteq> ?n \<longrightarrow> stored z k = stored (chip_zarr w ?cs) k"
    by blast
  let ?w3 = "?w2\<lparr>chip_zarr := (chip_zarr ?w2)(?cs := z)\<rparr>"
  have cz: "chip_zarr ?w2 = chip_zarr w" "anno_zarr ?w2 = anno_zarr w"
    by (simp_all add: report_put_def)
  show "stored (chip_zarr (persist self ee t (RawPixels px) w) ?cs) ?n = Some xarr_chip"
    and "\<forall>k. k \<noteq> ?n \<longrightarrow>
           stored (chip_zarr (persist self ee t (RawPixels px) w) ?cs) k
             = stored (chip_zarr w ?cs) k"
    and "\<forall>s. s \<noteq> ?cs \<longrightarrow> chip_zarr (persist self ee t (RawPixels px) w) s = chip_zarr w s"
    and "files (persist self ee t (RawPixels px) w) = files w"
    using ft rs z
    by (auto simp: persist_def write_square_def report_put_def Let_def
        split: option.splits sum.splits)
  show "xarr_anno = None \<longrightarrow>
           anno_zarr (persist self ee t (RawPixels px) w) = anno_zarr w
           \<and> errors_reported (persist self ee t (RawPixels px) w) = errors_reported w"
    using ft rs z
    by (auto simp: persist_def write_square_def report_put_def Let_def errors_reported_def)
  show "\<forall>ann. xarr_anno = Some ann \<and> anno_zarr w ?as \<noteq> Unreadable \<longrightarrow>
           stored (anno_zarr (persist self ee t (RawPixels px) w) ?as) ?n = Some ann
           \<and> (\<forall>k. k \<noteq> ?n \<longrightarrow>
                 stored (anno_zarr (persist self ee t (RawPixels px) w) ?as) k
                   = stored (anno_zarr w ?as) k)
           \<and> (\<forall>s. s \<noteq> ?as \<longrightarrow> anno_zarr (persist self ee t (RawPixels px) w) s = anno_zarr w s)
           \<and> errors_reported (persist self ee t (RawPixels px) w) = errors_reported w"
  proof (intro allI impI)
    fix ann
    assume h: "xarr_anno = Some ann \<and> anno_zarr w ?as \<noteq> Unreadable"
    then have rd2: "anno_zarr w ?as \<noteq> Unreadable" by simp
    from stored_to_zarr [OF rd2, of ?n ann] obtain za where
      za: "to_zarr (anno_zarr w ?as) ?n ann = Inr za" "stored za ?n = Some ann"
          "\<forall>k. k \<noteq> ?n \<longrightarrow> stored za k = stored (anno_zarr w ?as) k"
      by blast
    show "stored (anno_zarr (persist self ee t (RawPixels px) w) ?as) ?n = Some ann
           \<and> (\<forall>k. k \<noteq> ?n \<longrightarrow>
                 stored (anno_zarr (persist self ee t (RawPixels px) w) ?as) k
                   = stored (anno_zarr w ?as) k)
           \<and> (\<forall>s. s \<noteq> ?as \<longrightarrow> anno_zarr (persist self ee t (RawPixels px) w) s = anno_zarr w s)
           \<and> errors_reported (persist self ee t (RawPixels px) w) = errors_reported w"
      using ft rs z za h
      by (auto simp: persist_def write_square_def report_put_def Let_def errors_reported_def)
  qed
qed

text \<open>
  C9 fails as stated for a retry count below one. With a retry count of zero the loop
  makes no attempt, so a fetch that would fail on every request fails on every attempt
  up to the retry count; the consumer's task then reports nothing, no error among it,
  and puts the square's name on the result queue once, as for a square that was
  fetched and written.
\<close>

theorem consumer_zero_retries_counterexample:
  "d_retries no_retry_downloader = 0
   \<and> compute_pixels failing_service square_task = (\<lambda>n. Inl OtherError)
   \<and> report_queue (consume_task no_retry_downloader failing_service square_task one_present) = []
   \<and> errors_reported (consume_task no_retry_downloader failing_service square_task one_present) = {}
   \<and> result_queue (consume_task no_retry_downloader failing_service square_task one_present)
       = [Some (VStr ''sq0'')]"
  by (simp add: no_retry_downloader_def npy_downloader_def zarr_downloader_def
      failing_service_def consume_task_def fetch_loop_done result_put_def one_present_def
      square_task_def errors_reported_def)

text \<open>
  C9 as amended, for a retry count of at least one.

  When the fetch fails on every attempt up to the retry count, the consumer's task
  leaves the files and both chunked stores as they were, reports the error of the
  used-up retries and puts the square's name on the result queue (twice: once in the
  loop, once at the end of the task).

  When the fetch fails on every attempt before the last and succeeds on the last, the
  task persists the fetched array as any fetched array is persisted and puts the
  square's name on the result queue once. For the file formats, unless the write
  raises, the file of the square then holds the fetched array, every other file and
  both chunked stores are as they were and no error is reported. For the chunked
  format, when the fetched array is a structured array that \<open>zarr_reshape\<close> accepts and
  the chip store is readable, the chip store then holds the reshaped chip under the
  square's name, its other entries, the other stores and the files are as they were,
  and when there is an annotation and the annotation store is readable, the annotation
  store holds the annotation under the square's name, its other entries and the other
  stores are as they were, and no error is reported.

  No exception leaves the consumer: whatever the service and the writes raise, the task
  ends with the square's name put on the result queue and the image queue untouched,
  and a consumer that finds any tasks followed by a sentinel on its queue handles every
  one of them, takes the sentinel and ends by putting its own sentinel on the result
  queue. The start of the consumer before its first task (connecting to the service,
  loading the strata map) is taken as done: \<open>loaded_strata_map\<close> is what it loaded.
\<close>

theorem consumer_retry_policy:
  assumes "0 < d_retries self"
  shows "((\<forall>n. 1 \<le> n \<and> n \<le> d_retries self \<longrightarrow> (\<exists>e. compute_pixels ee t n = Inl e)) \<longrightarrow>
            files (consume_task self ee t w) = files w
            \<and> chip_zarr (consume_task self ee t w) = chip_zarr w
            \<and> anno_zarr (consume_task self ee t w) = anno_zarr w
            \<and> Some (Report ERROR (MaxRetries (t_square_name t)))
                 \<in> set (report_queue (consume_task self ee t w))
            \<and> result_queue (consume_task self ee t w)
                 = result_queue w @ [Some (t_square_name t), Some (t_square_name t)])
       \<and> ((\<forall>n. 1 \<le> n \<and> n < d_retries self \<longrightarrow> (\<exists>e. compute_pixels ee t n = Inl e))
            \<and> compute_pixels ee t (d_retries self) = Inr arr \<longrightarrow>
            (\<exists>w1. files w1 = files w \<and> chip_zarr w1 = chip_zarr w \<and> anno_zarr w1 = anno_zarr w
                  \<and> result_queue w1 = result_queue w
                  \<and> consume_task self ee t w
                      = result_put (Some (t_square_name t)) (persist self ee t arr w1))
            \<and> result_queue (consume_task self ee t w) = result_queue w @ [Some (t_square_name t)]
            \<and> ((d_file_type self = ''NPY'' \<or> d_file_type self = ''GEO_TIFF''
                 \<or> d_file_type self = ''NUMPY_NDARRAY'')
                \<and> write_raises ee (t_chip_data_path t) = None \<longrightarrow>
                files (consume_task self ee t w) (t_chip_data_path t) = Some arr
                \<and> files (consume_task self ee t w) = (files w)(t_chip_data_path t \<mapsto> arr)
                \<and> chip_zarr (consume_task self ee t w) = chip_zarr w
                \<and> anno_zarr (consume_task self ee t w) = anno_zarr w
                \<and> errors_reported (consume_task self ee t w) = errors_reported w)
            \<and> (\<forall>px xarr_chip xarr_anno.
                  d_file_type self = ''ZARR'' \<and> arr = RawPixels px
                  \<and> zarr_reshape (d_settings self) px (d_pixel_edge_size self) (t_square_name t)
                      (t_point_name t) (Some (t_attributes t)) (loaded_strata_map ee)
                      = Inr (xarr_chip, xarr_anno)
                  \<and> chip_zarr w (store_name (t_chip_data_path t)) \<noteq> Unreadable \<longrightarrow>
                  stored (chip_zarr (consume_task self ee t w) (store_name (t_chip_data_path t)))
                    (t_square_name t) = Some xarr_chip
                  \<and> (\<forall>k. k \<noteq> t_square_name t \<longrightarrow>
                        stored (chip_zarr (consume_task self ee t w)
                                  (store_name (t_chip_data_path t))) k
                          = stored (chip_zarr w (store_name (t_chip_data_path t))) k)
                  \<and> (\<forall>s. s \<noteq> store_name (t_chip_data_path t) \<longrightarrow>
                        chip_zarr (consume_task self ee t w) s = chip_zarr w s)
                  \<and> files (consume_task self ee t w) = files w
                  \<and> (xarr_anno = None \<longrightarrow>
                        anno_zarr (consume_task self ee t w) = anno_zarr w
                        \<and> errors_reported (consume_task self ee t w) = errors_reported w)
                  \<and> (\<forall>ann. xarr_anno = Some ann
                        \<and> anno_zarr w (store_name (t_anno_data_path t)) \<noteq> Unreadable \<longrightarrow>
                        stored (anno_zarr (consume_task self ee t w)
                                  (store_name (t_anno_data_path t))) (t_square_name t) = Some ann
                        \<and> (\<forall>k. k \<noteq> t_square_name t \<longrightarrow>
                              stored (anno_zarr (consume_task self ee t w)
                                        (store_name (t_anno_data_path t))) k
                                = stored (anno_zarr w (store_name (t_anno_data_path t))) k)
                        \<and> (\<forall>s. s \<noteq> store_name (t_anno_data_path t) \<longrightarrow>
                              anno_zarr (consume_task self ee t w) s = anno_zarr w s)
                        \<and> errors_reported (consume_task self ee t w) = errors_reported w)))
       \<and> (\<exists>q. result_queue (consume_task self ee t w)
                 = result_queue w @ q @ [Some (t_square_name t)])
       \<and> image_queue (consume_task self ee t w) = image_queue w
       \<and> (\<forall>ts rest. \<exists>w2.
             consumer_loop self ee (map Some ts @ None # rest) w = Some w2
             \<and> image_queue w2 = rest
             \<and> (\<exists>q. result_queue w2 = result_queue w @ q @ [None]
                    \<and> (\<forall>t' \<in> set ts. Some (t_square_name t') \<in> set q)))"
proof (intro conjI impI)
  assume fail: "\<forall>n. 1 \<le> n \<and> n \<le> d_retries self \<longrightarrow> (\<exists>e. compute_pixels ee t n = Inl e)"
  then have "\<forall>n. 0 < n \<and> n \<le> d_retries self \<longrightarrow> (\<exists>e. compute_pixels ee t n = Inl e)"
    by auto
  from fetch_loop_all_fail [OF this, of w] assms
  obtain w1 where f: "fetch_loop self ee t 0 w = (None, w1)"
    and s: "files w1 = files w" "chip_zarr w1 = chip_zarr w" "anno_zarr w1 = anno_zarr w"
    and r: "result_queue w1 = result_queue w @ [Some (t_square_name t)]"
    and m: "Some (Report ERROR (MaxRetries (t_square_name t))) \<in> set (report_queue w1)"
    by (cases "fetch_loop self ee t 0 w") auto
  have c: "consume_task self ee t w = result_put (Some (t_square_name t)) w1"
    by (simp add: consume_task_def f)
  show "files (consume_task self ee t w) = files w"
    and "chip_zarr (consume_task self ee t w) = chip_zarr w"
    and "anno_zarr (consume_task self ee t w) = anno_zarr w"
    and "Some (Report ERROR (MaxRetries (t_square_name t)))
           \<in> set (report_queue (consume_task self ee t w))"
    and "result_queue (consume_task self ee t w)
           = result_queue w @ [Some (t_square_name t), Some (t_square_name t)]"
    using s r m by (simp_all add: c result_put_def)
next
  show "\<exists>q. result_queue (consume_task self ee t w)
              = result_queue w @ q @ [Some (t_square_name t)]"
    and "image_queue (consume_task self ee t w) = image_queue w"
    using consume_task_queues [of self ee t w] by simp_all
next
  show "\<forall>ts rest. \<exists>w2.
             consumer_loop self ee (map Some ts @ None # rest) w = Some w2
             \<and> image_queue w2 = rest
             \<and> (\<exists>q. result_queue w2 = result_queue w @ q @ [None]
                    \<and> (\<forall>t' \<in> set ts. Some (t_square_name t') \<in> set q))"
    using consumer_loop_sentinel [of self ee _ _ w] by blast
next
  assume h: "(\<forall>n. 1 \<le> n \<and> n < d_retries self \<longrightarrow> (\<exists>e. compute_pixels ee t n = Inl e))
             \<and> compute_pixels ee t (d_retries self) = Inr arr"
  then have "\<forall>n. 0 < n \<and> n < d_retries self \<longrightarrow> (\<exists>e. compute_pixels ee t n = Inl e)"
    and ok: "compute_pixels ee t (d_retries self) = Inr arr"
    by auto
  from fetch_loop_last_succeeds [OF this assms, of w]
  obtain w1 where f: "fetch_loop self ee t 0 w = (Some arr, w1)"
    and s: "files w1 = files w" "chip_zarr w1 = chip_zarr w" "anno_zarr w1 = anno_zarr w"
           "result_queue w1 = result_queue w"
    and er: "errors_reported w1 = errors_reported w"
    by (cases "fetch_loop self ee t 0 w") auto
  have c: "consume_task self ee t w
             = result_put (Some (t_square_name t)) (persist self ee t arr w1)"
    by (simp add: consume_task_def f)
  have proj: "files (consume_task self ee t w) = files (persist self ee t arr w1)"
             "chip_zarr (consume_task self ee t w) = chip_zarr (persist self ee t arr w1)"
             "anno_zarr (consume_task self ee t w) = anno_zarr (persist self ee t arr w1)"
             "errors_reported (consume_task self ee t w)
                = errors_reported (persist self ee t arr w1)"
    by (simp_all add: c result_put_def errors_reported_def)
  from s show "\<exists>w1. files w1 = files w \<and> chip_zarr w1 = chip_zarr w \<and> anno_zarr w1 = anno_zarr w
                  \<and> result_queue w1 = result_queue w
                  \<and> consume_task self ee t w
                      = result_put (Some (t_square_name t)) (persist self ee t arr w1)"
    using c by blast
  show "result_queue (consume_task self ee t w) = result_queue w @ [Some (t_square_name t)]"
    using persist_queues [of self ee t arr w1] s by (simp add: c result_put_def)
  {
    assume fmt: "(d_file_type self = ''NPY'' \<or> d_file_type self = ''GEO_TIFF''
             \<or> d_file_type self = ''NUMPY_NDARRAY'')
          \<and> write_raises ee (t_chip_data_path t) = None"
    then have a: "d_file_type self = ''NPY'' \<or> d_file_type self = ''GEO_TIFF''
             \<or> d_file_type self = ''NUMPY_NDARRAY''"
      and b: "write_raises ee (t_chip_data_path t) = None"
      by simp_all
    note pf = persist_file [OF a b, of arr w1]
    show "files (consume_task self ee t w) (t_chip_data_path t) = Some arr"
      and "files (consume_task self ee t w) = (files w)(t_chip_data_path t \<mapsto> arr)"
      and "chip_zarr (consume_task self ee t w) = chip_zarr w"
      and "anno_zarr (consume_task self ee t w) = anno_zarr w"
      and "errors_reported (consume_task self ee t w) = errors_reported w"
      using pf s er by (simp_all add: proj)
  }
  show "\<forall>px xarr_chip xarr_anno.
                  d_file_type self = ''ZARR'' \<and> arr = RawPixels px
                  \<and> zarr_reshape (d_settings self) px (d_pixel_edge_size self) (t_square_name t)
                      (t_point_name t) (Some (t_attributes t)) (loaded_strata_map ee)
                      = Inr (xarr_chip, xarr_anno)
                  \<and> chip_zarr w (store_name (t_chip_data_path t)) \<noteq> Unreadable \<longrightarrow>
                  stored (chip_zarr (consume_task self ee t w) (store_name (t_chip_data_path t)))
                    (t_square_name t) = Some xarr_chip
                  \<and> (\<forall>k. k \<noteq> t_square_name t \<longrightarrow>
                        stored (chip_zarr (consume_task self ee t w)
                                  (store_name (t_chip_data_path t))) k
                          = stored (chip_zarr w (store_name (t_chip_data_path t))) k)
                  \<and> (\<forall>s. s \<noteq> store_name (t_chip_data_path t) \<longrightarrow>
                        chip_zarr (consume_task self ee t w) s = chip_zarr w s)
                  \<and> files (consume_task self ee t w) = files w
                  \<and> (xarr_anno = None \<longrightarrow>
                        anno_zarr (consume_task self ee t w) = anno_zarr w
                        \<and> errors_reported (consume_task self ee t w) = errors_reported w)
                  \<and> (\<forall>ann. xarr_anno = Some ann
                        \<and> anno_zarr w (store_name (t_anno_data_path t)) \<noteq> Unreadable \<longrightarrow>
                        stored (anno_zarr (consume_task self ee t w)
                                  (store_name (t_anno_data_path t))) (t_square_name t) = Some ann
                        \<and> (\<forall>k. k \<noteq> t_square_name t \<longrightarrow>
                              stored (anno_zarr (consume_task self ee t w)
                                        (store_name (t_anno_data_path t))) k
                                = stored (anno_zarr w (store_name (t_anno_data_path t))) k)
                        \<and> (\<forall>s. s \<noteq> store_name (t_anno_data_path t) \<longrightarrow>
                              anno_zarr (consume_task self ee t w) s = anno_zarr w s)
                        \<and> errors_reported (consume_task self ee t w) = errors_reported w)"
  proof (intro allI impI)
    fix px xarr_chip xarr_anno
    assume z: "d_file_type self = ''ZARR'' \<and> arr = RawPixels px
                  \<and> zarr_reshape (d_settings self) px (d_pixel_edge_size self) (t_square_name t)
                      (t_point_name t) (Some (t_attributes t)) (loaded_strata_map ee)
                      = Inr (xarr_chip, xarr_anno)
                  \<and> chip_zarr w (store_name (t_chip_data_path t)) \<noteq> Unreadable"
    then have ft: "d_file_type self = ''ZARR''" and arr: "arr = RawPixels px"
      and rs: "zarr_reshape (d_settings self) px (d_pixel_edge_size self) (t_square_name t)
                 (t_point_name t) (Some (t_attributes t)) (loaded_strata_map ee)
                 = Inr (xarr_chip, xarr_anno)"
      and rd: "chip_zarr w1 (store_name (t_chip_data_path t)) \<noteq> Unreadable"
      using s by simp_all
    note pz = persist_zarr [OF ft rs rd]
    show "stored (chip_zarr (consume_task self ee t w) (store_name (t_chip_data_path t)))
                    (t_square_name t) = Some xarr_chip
                  \<and> (\<forall>k. k \<noteq> t_square_name t \<longrightarrow>
                        stored (chip_zarr (consume_task self ee t w)
                                  (store_name (t_chip_data_path t))) k
                          = stored (chip_zarr w (store_name (t_chip_data_path t))) k)
                  \<and> (\<forall>s. s \<noteq> store_name (t_chip_data_path t) \<longrightarrow>
                        chip_zarr (consume_task self ee t w) s = chip_zarr w s)
                  \<and> files (consume_task self ee t w) = files w
                  \<and> (xarr_anno = None \<longrightarrow>
                        anno_zarr (consume_task self ee t w) = anno_zarr w
                        \<and> errors_reported (consume_task self ee t w) = errors_reported w)
                  \<and> (\<forall>ann. xarr_anno = Some ann
                        \<and> anno_zarr w (store_name (t_anno_data_path t)) \<noteq> Unreadable \<longrightarrow>
                        stored (anno_zarr (consume_task self ee t w)
                                  (store_name (t_anno_data_path t))) (t_square_name t) = Some ann
                        \<and> (\<forall>k. k \<noteq> t_square_name t \<longrightarrow>
                              stored (anno_zarr (consume_task self ee t w)
                                        (store_name (t_anno_data_path t))) k
                                = stored (anno_zarr w (store_name (t_anno_data_path t))) k)
                        \<and> (\<forall>s. s \<noteq> store_name (t_anno_data_path t) \<longrightarrow>
                              anno_zarr (consume_task self ee t w) s = anno_zarr w s)
                        \<and> errors_reported (consume_task self ee t w) = errors_reported w)"
      unfolding proj arr s [symmetric] er [symmetric]
      using pz by blast
  qed
qed

theorem consumer_retry_policy_witness:
  "d_retries npy_downloader = 3
   \<and> compute_pixels failing_service square_task = (\<lambda>n. Inl OtherError)
   \<and> files (consume_task npy_downloader failing_service square_task one_present)
       = files one_present
   \<and> result_queue (consume_task npy_downloader failing_service square_task one_present)
       = [Some (VStr ''sq0''), Some (VStr ''sq0'')]
   \<and> compute_pixels flaky_service square_task 1 = Inl OtherError
   \<and> compute_pixels flaky_service square_task 2 = Inl OtherError
   \<and> compute_pixels flaky_service square_task 3 = Inr (RawBytes ''abc'')
   \<and> files (consume_task npy_downloader flaky_service square_task one_present)
        (File ''chips'' (VStr ''sq0'') ''npy'') = Some (RawBytes ''abc'')
   \<and> d_retries zarr_downloader = 3 \<and> d_file_type zarr_downloader = ''ZARR''
   \<and> compute_pixels flaky_pixel_service store_task 1 = Inl OtherError
   \<and> compute_pixels flaky_pixel_service store_task 2 = Inl OtherError
   \<and> compute_pixels flaky_pixel_service store_task 3 = Inr (RawPixels one_pixel)
   \<and> stored (chip_zarr (consume_task zarr_downloader flaky_pixel_service store_task one_present) ''chips'') (VStr ''sq0'')
       = Some \<lparr>da_name = VStr ''sq0'', attrs = [(''stratum'', VStr ''forest''), (''point'', VStr ''pt0'')],
            chunks = [(''year'', 1)], x_size = 1, y_size = 1, trail = [1], planes = [[[[Num 5]]]]\<rparr>
   \<and> stored (chip_zarr (consume_task zarr_downloader flaky_pixel_service store_task one_present) ''chips'') (VStr ''sq1'') = Some stored_chip
   \<and> stored (anno_zarr (consume_task zarr_downloader flaky_pixel_service store_task one_present) ''annos'') (VStr ''sq0'')
       = Some \<lparr>da_name = VStr ''sq0'', attrs = [], chunks = [(''strata'', 1)], x_size = 1, y_size = 1,
            trail = [], planes = [[[Num 1]], [[Num 0]]]\<rparr>
   \<and> stored (anno_zarr (consume_task zarr_downloader flaky_pixel_service store_task one_present) ''annos'') (VStr ''sq1'') = Some stored_anno
   \<and> result_queue (consume_task zarr_downloader flaky_pixel_service store_task one_present) = [Some (VStr ''sq0'')]
   \<and> (\<exists>w2. image_consumer npy_downloader failing_service
               (one_present\<lparr>image_queue := [Some square_task, None]\<rparr>) = Some w2
          \<and> image_queue w2 = []
          \<and> (\<exists>q. result_queue w2 = q @ [None] \<and> Some (VStr ''sq0'') \<in> set q))"
proof -
  have r: "0 < d_retries npy_downloader" "d_retries npy_downloader = 3"
    by (simp_all add: npy_downloader_def zarr_downloader_def)
  have rz: "0 < d_retries zarr_downloader" "d_retries zarr_downloader = 3"
    "d_file_type zarr_downloader = ''ZARR''"
    by (simp_all add: zarr_downloader_def)
  have fail: "\<forall>n. 1 \<le> n \<and> n \<le> d_retries npy_downloader
                \<longrightarrow> (\<exists>e. compute_pixels failing_service square_task n = Inl e)"
    and f: "compute_pixels failing_service square_task = (\<lambda>n. Inl OtherError)"
    by (simp_all add: failing_service_def)
  have flaky: "(\<forall>n. 1 \<le> n \<and> n < d_retries npy_downloader
                  \<longrightarrow> (\<exists>e. compute_pixels flaky_service square_task n = Inl e))
               \<and> compute_pixels flaky_service square_task (d_retries npy_downloader)
                   = Inr (RawBytes ''abc'')"
    and k: "compute_pixels flaky_service square_task 1 = Inl OtherError"
           "compute_pixels flaky_service square_task 2 = Inl OtherError"
           "compute_pixels flaky_service square_task 3 = Inr (RawBytes ''abc'')"
    by (simp_all add: flaky_service_def r)
  have flakyz: "(\<forall>n. 1 \<le> n \<and> n < d_retries zarr_downloader
                  \<longrightarrow> (\<exists>e. compute_pixels flaky_pixel_service store_task n = Inl e))
               \<and> compute_pixels flaky_pixel_service store_task (d_retries zarr_downloader)
                   = Inr (RawPixels one_pixel)"
    and kz: "compute_pixels flaky_pixel_service store_task 1 = Inl OtherError"
            "compute_pixels flaky_pixel_service store_task 2 = Inl OtherError"
            "compute_pixels flaky_pixel_service store_task 3 = Inr (RawPixels one_pixel)"
    by (simp_all add: flaky_pixel_service_def rz)
  have fmt: "(d_file_type npy_downloader = ''NPY'' \<or> d_file_type npy_downloader = ''GEO_TIFF''
               \<or> d_file_type npy_downloader = ''NUMPY_NDARRAY'')
             \<and> write_raises flaky_service (t_chip_data_path square_task) = None"
    by (simp add: npy_downloader_def flaky_service_def good_service_def)
  have p: "t_chip_data_path square_task = File ''chips'' (VStr ''sq0'') ''npy''"
          "t_square_name square_task = VStr ''sq0''" "result_queue one_present = []"
    by (simp_all add: square_task_def one_present_def)
  have pz: "store_name (t_chip_data_path store_task) = ''chips''"
           "store_name (t_anno_data_path store_task) = ''annos''"
           "t_square_name store_task = VStr ''sq0''"
    by (simp_all add: store_task_def store_name_def)
  have old: "stored (chip_zarr one_present ''chips'') (VStr ''sq1'') = Some stored_chip"
            "stored (anno_zarr one_present ''annos'') (VStr ''sq1'') = Some stored_anno"
    by (simp_all add: one_present_def stored_def)
  have reshape: "zarr_reshape (d_settings zarr_downloader) one_pixel
        (d_pixel_edge_size zarr_downloader) (t_square_name store_task) (t_point_name store_task)
        (Some (t_attributes store_task)) (loaded_strata_map flaky_pixel_service)
      = Inr (\<lparr>da_name = VStr ''sq0'', attrs = [(''stratum'', VStr ''forest''), (''point'', VStr ''pt0'')],
            chunks = [(''year'', 1)], x_size = 1, y_size = 1, trail = [1], planes = [[[[Num 5]]]]\<rparr>,
             Some \<lparr>da_name = VStr ''sq0'', attrs = [], chunks = [(''strata'', 1)], x_size = 1, y_size = 1,
            trail = [], planes = [[[Num 1]], [[Num 0]]]\<rparr>)"
    by (simp add: zarr_downloader_def store_task_def flaky_pixel_service_def good_service_def
        zarr_reshape_def annotation_def example_settings_def one_pixel_def
        two_strata_def unzip_pairs_def stack_years_def get_field_def dstack_def assign_slice_def
        slice_bound_def slice_len_def Let_def)
  have readable: "chip_zarr one_present (store_name (t_chip_data_path store_task)) \<noteq> Unreadable"
    "anno_zarr one_present (store_name (t_anno_data_path store_task)) \<noteq> Unreadable"
    by (simp_all add: pz one_present_def)
  from consumer_retry_policy [OF r(1), where ee = failing_service and t = square_task
      and w = one_present] fail
  have a: "files (consume_task npy_downloader failing_service square_task one_present)
             = files one_present"
          "result_queue (consume_task npy_downloader failing_service square_task one_present)
             = [Some (VStr ''sq0''), Some (VStr ''sq0'')]"
    by (simp_all add: p)
  from consumer_retry_policy [OF r(1), where ee = flaky_service and t = square_task
      and arr = "RawBytes ''abc''" and w = one_present]
    flaky fmt
  have b: "files (consume_task npy_downloader flaky_service square_task one_present)
             (File ''chips'' (VStr ''sq0'') ''npy'') = Some (RawBytes ''abc'')"
    by (simp add: p)
  note last = consumer_retry_policy [OF rz(1), where ee = flaky_pixel_service and t = store_task
      and arr = "RawPixels one_pixel" and w = one_present,
      THEN conjunct2, THEN conjunct1, THEN mp, OF flakyz]
  have hz: "d_file_type zarr_downloader = ''ZARR'' \<and> RawPixels one_pixel = RawPixels one_pixel
      \<and> zarr_reshape (d_settings zarr_downloader) one_pixel
        (d_pixel_edge_size zarr_downloader) (t_square_name store_task) (t_point_name store_task)
        (Some (t_attributes store_task)) (loaded_strata_map flaky_pixel_service)
      = Inr (\<lparr>da_name = VStr ''sq0'', attrs = [(''stratum'', VStr ''forest''), (''point'', VStr ''pt0'')],
            chunks = [(''year'', 1)], x_size = 1, y_size = 1, trail = [1], planes = [[[[Num 5]]]]\<rparr>,
             Some \<lparr>da_name = VStr ''sq0'', attrs = [], chunks = [(''strata'', 1)], x_size = 1, y_size = 1,
            trail = [], planes = [[[Num 1]], [[Num 0]]]\<rparr>)
      \<and> chip_zarr one_present (store_name (t_chip_data_path store_task)) \<noteq> Unreadable"
    using rz(3) reshape readable(1) by simp
  note zr = last [THEN conjunct2, THEN conjunct2, THEN conjunct2, THEN spec, THEN spec, THEN spec,
      THEN mp, OF hz]
  have c1: "stored (chip_zarr (consume_task zarr_downloader flaky_pixel_service store_task one_present) ''chips'') (VStr ''sq0'')
       = Some \<lparr>da_name = VStr ''sq0'', attrs = [(''stratum'', VStr ''forest''), (''point'', VStr ''pt0'')],
            chunks = [(''year'', 1)], x_size = 1, y_size = 1, trail = [1], planes = [[[[Num 5]]]]\<rparr>"
    using zr [THEN conjunct1] by (simp add: pz)
  have c2: "stored (chip_zarr (consume_task zarr_downloader flaky_pixel_service store_task one_present) ''chips'') (VStr ''sq1'') = Some stored_chip"
    using zr [THEN conjunct2, THEN conjunct1, THEN spec, of "VStr ''sq1''"] old
    by (simp add: pz)
  note za = zr [THEN conjunct2, THEN conjunct2, THEN conjunct2, THEN conjunct2, THEN conjunct2,
      THEN spec, THEN mp, OF conjI, OF refl readable(2)]
  have c3: "stored (anno_zarr (consume_task zarr_downloader flaky_pixel_service store_task one_present) ''annos'') (VStr ''sq0'')
       = Some \<lparr>da_name = VStr ''sq0'', attrs = [], chunks = [(''strata'', 1)], x_size = 1, y_size = 1,
            trail = [], planes = [[[Num 1]], [[Num 0]]]\<rparr>"
    using za [THEN conjunct1] by (simp add: pz)
  have c4: "stored (anno_zarr (consume_task zarr_downloader flaky_pixel_service store_task one_present) ''annos'') (VStr ''sq1'') = Some stored_anno"
    using za [THEN conjunct2, THEN conjunct1, THEN spec, of "VStr ''sq1''"] old
    by (simp add: pz)
  have c5: "result_queue (consume_task zarr_downloader flaky_pixel_service store_task one_present) = [Some (VStr ''sq0'')]"
    using last [THEN conjunct2, THEN conjunct1] by (simp add: pz p)
  from consumer_retry_policy [OF r(1), where ee = failing_service and t = square_task
      and w = "one_present\<lparr>image_queue := [Some square_task, None]\<rparr>",
      THEN conjunct2, THEN conjunct2, THEN conjunct2, THEN conjunct2,
      THEN spec, THEN spec, of "[square_task]" "[]"]
  have d: "\<exists>w2. image_consumer npy_downloader failing_service
               (one_present\<lparr>image_queue := [Some square_task, None]\<rparr>) = Some w2
          \<and> image_queue w2 = []
          \<and> (\<exists>q. result_queue w2 = q @ [None] \<and> Some (VStr ''sq0'') \<in> set q)"
    by (simp add: image_consumer_def p)
  show ?thesis
    using r(2) f a b k rz(2,3) kz c1 c2 c3 c4 c5 d by simp
qed

end
